theory Spec2Isabelle
  imports Complex_Main "HOL-Library.Word"
begin

section \<open>Sampling a DEM raster at points: drone_flightplan/sampleRasterAtPoints.py\<close>

text \<open>
  The module has three functions. \<open>sampleRasterFromPointsList\<close> and
  \<open>rasterValuesAtPoints\<close> open a raster, invert its geotransform, build a coordinate
  transformation and then run one loop over the points: transform the point, swap the two
  coordinates, apply the inverse geotransform, floor, read one pixel of band 1, unpack its bytes,
  append a row. \<open>gridWithElevation2csv\<close> writes rows to a CSV file.

  What the module calls in GDAL/OGR/OSR, \<open>math\<close>, \<open>struct\<close> and \<open>csv\<close> is modelled as follows.
  \<^item> Coordinates are \<open>real\<close>: the value of a finite Python float. Infinities and NaN are
    not modelled for coordinates; they are for an unpacked float elevation.
  \<^item> The projection mathematics is a parameter: \<open>CoordinateTransformation\<close> maps two spatial
    references to the function that \<open>TransformPoint\<close> applies (it returns three coordinates).
  \<^item> \<open>gdal.InvGeoTransform\<close> returns \<open>None\<close> for a geotransform that cannot be inverted and the
    inverse otherwise; \<open>gdal.ApplyGeoTransform\<close> is the affine map of its six coefficients.
  \<^item> \<open>band.ReadRaster(x, y, 1, 1)\<close> yields the bytes of the pixel when the 1x1 window lies in
    the raster and fails otherwise.
  \<^item> The \<open>print\<close> calls are left out, except line 96, whose argument raises when the layer
    has no spatial reference.
\<close>

subsection \<open>Errors and values\<close>

text \<open>
  The module defines no exception class. Each way a run can raise is one constructor, named
  after the error taxonomy of the specification where it has a name for it:
  \<^item> \<open>RasterOpenError\<close>: \<open>gdal.Open\<close> gave no dataset (line 26/77; line 28/80 raises);
  \<^item> \<open>TransformInversionError\<close>: \<open>gdal.ApplyGeoTransform\<close> is called with \<open>reverse = None\<close>
    (line 53/106);
  \<^item> \<open>VectorOpenError\<close>: \<open>ogr.Open\<close> gave no data source (line 92; line 93 raises);
  \<^item> \<open>MissingCRSError\<close>: \<open>pointSR\<close> is \<open>None\<close> and line 96 reads \<open>pointSR.GetName\<close>;
  \<^item> \<open>PixelReadError\<close>: \<open>band.ReadRaster\<close> failed (line 56/109);
  \<^item> \<open>StructError\<close>: \<open>struct.unpack\<close> got a buffer of the wrong size (line 61/110);
  \<^item> \<open>FileWriteError\<close>: \<open>open(outfile, "w")\<close> failed (line 127).
\<close>

datatype error =
    RasterOpenError
  | TransformInversionError
  | VectorOpenError
  | MissingCRSError
  | PixelReadError
  | StructError
  | FileWriteError

type_synonym byte = "8 word"

text \<open>The float that \<open>struct.unpack("f", ...)\<close> returns: a finite value, an infinity or NaN.\<close>

datatype pyfloat = Finite real | PosInf | NegInf | NaN

text \<open>\<open>sys.byteorder\<close>: the format \<open>"f"\<close> has no prefix, so it uses the host's byte order.\<close>

datatype byteorder = LittleEndian | BigEndian

subsection \<open>The raster and vector library\<close>

type_synonym geotransform = "real \<times> real \<times> real \<times> real \<times> real \<times> real"

type_synonym transform = "real \<Rightarrow> real \<Rightarrow> real \<times> real \<times> real"

text \<open>
  An opened raster: the spatial reference imported from its projection (lines 27-28), the
  forward geotransform, its size in pixels, and the bytes of each pixel of band 1 by
  (column, row).
\<close>

record 'sr dataset =
  GetProjection :: 'sr
  GetGeoTransform :: geotransform
  RasterXSize :: int
  RasterYSize :: int
  band1 :: "int \<Rightarrow> int \<Rightarrow> byte list"

text \<open>A point layer: its declared spatial reference, if any, and the (X, Y) of each feature.\<close>

record 'sr layer =
  GetSpatialRef :: "'sr option"
  features :: "(real \<times> real) list"

text \<open>What the library and the host provide to a run.\<close>

record 'sr world =
  gdal_Open :: "string \<rightharpoonup> 'sr dataset"
  ogr_Open :: "string \<rightharpoonup> 'sr layer"
  ImportFromEPSG :: "nat \<Rightarrow> 'sr"
  CoordinateTransformation :: "'sr \<Rightarrow> 'sr \<Rightarrow> transform"
  sys_byteorder :: byteorder

text \<open>
  \<open>gdal.ApplyGeoTransform(gt, x, y)\<close> is the affine map of the six coefficients.
  \<open>gdal.InvGeoTransform(gt)\<close> is its inverse, in exact arithmetic, and \<open>None\<close> when the
  determinant of the linear part is zero. \<open>band.ReadRaster(xoff, yoff, 1, 1)\<close> gives the bytes
  of one pixel when the window lies inside the raster and fails otherwise.
\<close>

fun ApplyGeoTransform :: "geotransform \<Rightarrow> real \<Rightarrow> real \<Rightarrow> real \<times> real" where
  "ApplyGeoTransform (g0, g1, g2, g3, g4, g5) x y =
     (g0 + x * g1 + y * g2, g3 + x * g4 + y * g5)"

fun InvGeoTransform :: "geotransform \<Rightarrow> geotransform option" where
  "InvGeoTransform (g0, g1, g2, g3, g4, g5) =
     (let det = g1 * g5 - g2 * g4
      in if det = 0 then None
         else Some ((g2 * g3 - g0 * g5) / det, g5 / det, - g2 / det,
                    (g0 * g4 - g1 * g3) / det, - g4 / det, g1 / det))"

definition ReadRaster :: "'sr dataset \<Rightarrow> int \<Rightarrow> int \<Rightarrow> byte list option" where
  "ReadRaster r xoff yoff =
     (if 0 \<le> xoff \<and> xoff + 1 \<le> RasterXSize r \<and> 0 \<le> yoff \<and> yoff + 1 \<le> RasterYSize r
      then Some (band1 r xoff yoff) else None)"

subsection \<open>math.floor and struct.unpack\<close>

definition math_floor :: "real \<Rightarrow> int" where
  "math_floor x = \<lfloor>x\<rfloor>"

text \<open>\<open>struct.unpack("<h", b)\<close>: two bytes, least significant first, two's complement.\<close>

fun struct_unpack_le_h :: "byte list \<Rightarrow> error + int" where
  "struct_unpack_le_h [b0, b1] = Inr (sint (word_of_int (uint b0 + 256 * uint b1) :: 16 word))"
| "struct_unpack_le_h _ = Inl StructError"

text \<open>
  The value of an IEEE 754 binary32 bit pattern \<open>n < 2 ^ 32\<close>: sign bit, 8 exponent bits with
  bias 127, 23 fraction bits. Python widens it to a double without rounding.
\<close>

definition binary32 :: "nat \<Rightarrow> pyfloat" where
  "binary32 n =
     (let negative = (n div 2 ^ 31 = 1);
          e = (n div 2 ^ 23) mod 256;
          m = n mod 2 ^ 23;
          s = (if negative then - 1 else 1 :: real)
      in if e = 255 then (if m \<noteq> 0 then NaN else if negative then NegInf else PosInf)
         else if e = 0 then Finite (s * real m / 2 ^ 149)
         else if 150 \<le> e then Finite (s * real (2 ^ 23 + m) * 2 ^ (e - 150))
         else Finite (s * real (2 ^ 23 + m) / 2 ^ (150 - e)))"

text \<open>\<open>struct.unpack("f", b)\<close>: four bytes in the host's byte order.\<close>

fun struct_unpack_f :: "byteorder \<Rightarrow> byte list \<Rightarrow> error + pyfloat" where
  "struct_unpack_f LittleEndian [b0, b1, b2, b3] =
     Inr (binary32 (unat b0 + 256 * unat b1 + 65536 * unat b2 + 16777216 * unat b3))"
| "struct_unpack_f BigEndian [b0, b1, b2, b3] =
     Inr (binary32 (unat b3 + 256 * unat b2 + 65536 * unat b1 + 16777216 * unat b0))"
| "struct_unpack_f _ _ = Inl StructError"

subsection \<open>The two sampling functions\<close>

text \<open>
  A run yields the list of rows or the error that ended it, together with the pixel windows
  that were handed to \<open>band.ReadRaster\<close>, in order.
\<close>

record 'row run =
  reads :: "(int \<times> int) list"
  outcome :: "error + 'row list"

text \<open>Lines 49-66: the loop of \<open>sampleRasterFromPointsList\<close>; \<open>points\<close> is the list built so far.\<close>

fun points_list_loop ::
  "transform \<Rightarrow> geotransform option \<Rightarrow> 'sr dataset \<Rightarrow> ('i \<times> real \<times> real) list \<Rightarrow>
   ('i \<times> real \<times> real \<times> int) list \<Rightarrow> (int \<times> int) list \<Rightarrow> ('i \<times> real \<times> real \<times> int) run" where
  "points_list_loop tr reverse r [] points rd = \<lparr>reads = rd, outcome = Inr points\<rparr>"
| "points_list_loop tr reverse r ((f0, f1, f2) # rest) points rd =
     (case tr f1 f2 of (p0, p1, p2) \<Rightarrow>
        let mapX = p1; mapY = p0 in
        (case reverse of
           None \<Rightarrow> \<lparr>reads = rd, outcome = Inl TransformInversionError\<rparr>
         | Some rv \<Rightarrow>
            (case ApplyGeoTransform rv mapX mapY of (c0, c1) \<Rightarrow>
               let pixX = math_floor c0; pixY = math_floor c1 in
               (case ReadRaster r pixX pixY of
                  None \<Rightarrow> \<lparr>reads = rd @ [(pixX, pixY)], outcome = Inl PixelReadError\<rparr>
                | Some elevationstruct \<Rightarrow>
                   (case struct_unpack_le_h elevationstruct of
                      Inl e \<Rightarrow> \<lparr>reads = rd @ [(pixX, pixY)], outcome = Inl e\<rparr>
                    | Inr elevation \<Rightarrow>
                        points_list_loop tr reverse r rest
                          (points @ [(f0, f1, f2, elevation)]) (rd @ [(pixX, pixY)]))))))"

definition sampleRasterFromPointsList ::
  "'sr world \<Rightarrow> string \<Rightarrow> ('i \<times> real \<times> real) list \<Rightarrow> ('i \<times> real \<times> real \<times> int) run" where
  "sampleRasterFromPointsList w raster_file points_list =
     (case gdal_Open w raster_file of
        None \<Rightarrow> \<lparr>reads = [], outcome = Inl RasterOpenError\<rparr>
      | Some r \<Rightarrow>
          let rasterSR = GetProjection r;
              forward = GetGeoTransform r;
              reverse = InvGeoTransform forward;
              pointSR = ImportFromEPSG w 3857;
              tr = CoordinateTransformation w pointSR rasterSR
          in points_list_loop tr reverse r points_list [] [])"

text \<open>Lines 101-121: the loop of \<open>rasterValuesAtPoints\<close> over the features of the layer.\<close>

fun layer_loop ::
  "byteorder \<Rightarrow> transform \<Rightarrow> geotransform option \<Rightarrow> 'sr dataset \<Rightarrow> (real \<times> real) list \<Rightarrow>
   (real \<times> real \<times> pyfloat) list \<Rightarrow> (int \<times> int) list \<Rightarrow> (real \<times> real \<times> pyfloat) run" where
  "layer_loop bo tr reverse r [] points rd = \<lparr>reads = rd, outcome = Inr points\<rparr>"
| "layer_loop bo tr reverse r ((gx, gy) # rest) points rd =
     (case tr gx gy of (p0, p1, p2) \<Rightarrow>
        let mapX = p1; mapY = p0 in
        (case reverse of
           None \<Rightarrow> \<lparr>reads = rd, outcome = Inl TransformInversionError\<rparr>
         | Some rv \<Rightarrow>
            (case ApplyGeoTransform rv mapX mapY of (c0, c1) \<Rightarrow>
               let pixX = math_floor c0; pixY = math_floor c1 in
               (case ReadRaster r pixX pixY of
                  None \<Rightarrow> \<lparr>reads = rd @ [(pixX, pixY)], outcome = Inl PixelReadError\<rparr>
                | Some elevationstruct \<Rightarrow>
                   (case struct_unpack_f bo elevationstruct of
                      Inl e \<Rightarrow> \<lparr>reads = rd @ [(pixX, pixY)], outcome = Inl e\<rparr>
                    | Inr elevation \<Rightarrow>
                        layer_loop bo tr reverse r rest
                          (points @ [(mapX, mapY, elevation)]) (rd @ [(pixX, pixY)]))))))"

definition rasterValuesAtPoints ::
  "'sr world \<Rightarrow> string \<Rightarrow> string \<Rightarrow> (real \<times> real \<times> pyfloat) run" where
  "rasterValuesAtPoints w raster_file point_file =
     (case gdal_Open w raster_file of
        None \<Rightarrow> \<lparr>reads = [], outcome = Inl RasterOpenError\<rparr>
      | Some r \<Rightarrow>
          let rasterSR = GetProjection r;
              forward = GetGeoTransform r;
              reverse = InvGeoTransform forward
          in (case ogr_Open w point_file of
                None \<Rightarrow> \<lparr>reads = [], outcome = Inl VectorOpenError\<rparr>
              | Some lyr \<Rightarrow>
                 (case GetSpatialRef lyr of
                    None \<Rightarrow> \<lparr>reads = [], outcome = Inl MissingCRSError\<rparr>
                  | Some pointSR \<Rightarrow>
                      let tr = CoordinateTransformation w pointSR rasterSR
                      in layer_loop (sys_byteorder w) tr reverse r (features lyr) [] [])))"

text \<open>
  Lines 50-55 and 103-108 as one expression: the pixel window that the loop body computes for
  a point, given the inverse geotransform. The theorems below state what the loops read
  through it.
\<close>

definition pixel_of :: "transform \<Rightarrow> geotransform \<Rightarrow> real \<Rightarrow> real \<Rightarrow> int \<times> int" where
  "pixel_of tr rv x y =
     (case tr x y of (p0, p1, p2) \<Rightarrow>
        (case ApplyGeoTransform rv p1 p0 of (c0, c1) \<Rightarrow> (math_floor c0, math_floor c1)))"

text \<open>Lines 56-61 and 109-110: read the window, unpack the bytes.\<close>

definition pixel_value ::
  "'sr dataset \<Rightarrow> (byte list \<Rightarrow> error + 'e) \<Rightarrow> int \<times> int \<Rightarrow> error + 'e" where
  "pixel_value r unpack px =
     (case ReadRaster r (fst px) (snd px) of
        None \<Rightarrow> Inl PixelReadError
      | Some elevationstruct \<Rightarrow> unpack elevationstruct)"

subsection \<open>Writing the CSV file\<close>

text \<open>
  The file system: the text of each file and whether \<open>open(path, "w")\<close> succeeds. The
  \<open>csv\<close> writer joins the rendered fields of a row with commas and ends the row with CR LF;
  \<open>render\<close> is the text it emits for one field (\<open>str\<close> of the value, quoted where the dialect
  asks for it). The three header fields are emitted as they are.
\<close>

record filesystem =
  files :: "string \<rightharpoonup> string"
  writable :: "string \<Rightarrow> bool"

definition CR :: char where
  "CR = CHR 0x0D"

definition LF :: char where
  "LF = CHR 0x0A"

fun join :: "string \<Rightarrow> string list \<Rightarrow> string" where
  "join sep [] = []"
| "join sep [f] = f"
| "join sep (f # g # fs) = f @ sep @ join sep (g # fs)"

definition writerow :: "string list \<Rightarrow> string" where
  "writerow cells = join '','' cells @ [CR, LF]"

fun writerows :: "('v \<Rightarrow> string) \<Rightarrow> 'v list list \<Rightarrow> string \<Rightarrow> string" where
  "writerows render [] buf = buf"
| "writerows render (row # rows) buf = writerows render rows (buf @ writerow (map render row))"

definition gridWithElevation2csv ::
  "('v \<Rightarrow> string) \<Rightarrow> 'v list list \<Rightarrow> string \<Rightarrow> filesystem \<Rightarrow> error + filesystem" where
  "gridWithElevation2csv render grid outfile fs =
     (if \<not> writable fs outfile then Inl FileWriteError
      else let buf0 = [];
               buf1 = buf0 @ writerow [''x'', ''y'', ''elevation''];
               buf2 = writerows render grid buf1
           in Inr (fs\<lparr>files := (files fs)(outfile \<mapsto> buf2)\<rparr>))"

text \<open>
  Reading a text back as lines, as Python's \<open>str.splitlines\<close> does for CR, LF and CR LF:
  each ends a line, and a text that ends with a line break has no empty last line.
\<close>

fun splitlines :: "string \<Rightarrow> string \<Rightarrow> string list" where
  "splitlines cur [] = (if cur = [] then [] else [cur])"
| "splitlines cur [c] = (if c = LF \<or> c = CR then [cur] else [cur @ [c]])"
| "splitlines cur (c # d # s) =
     (if c = CR \<and> d = LF then cur # splitlines [] s
      else if c = CR \<or> c = LF then cur # splitlines [] (d # s)
      else splitlines (cur @ [c]) (d # s))"

subsection \<open>Pixels of a list of points\<close>

abbreviation list_pixels ::
  "transform \<Rightarrow> geotransform \<Rightarrow> ('i \<times> real \<times> real) list \<Rightarrow> (int \<times> int) list" where
  "list_pixels tr rv pts \<equiv> map (\<lambda>(f0, f1, f2). pixel_of tr rv f1 f2) pts"

abbreviation layer_pixels ::
  "transform \<Rightarrow> geotransform \<Rightarrow> (real \<times> real) list \<Rightarrow> (int \<times> int) list" where
  "layer_pixels tr rv feats \<equiv> map (\<lambda>(gx, gy). pixel_of tr rv gx gy) feats"

subsection \<open>A small world to run the functions in\<close>

text \<open>
  Three 4x4 rasters: one of 16-bit pixels whose value is \<open>column + 4 * row\<close>, one of 32-bit
  float pixels that are all 1.0, and one whose geotransform is all zero. Four point layers, one
  without a spatial reference, one without features, and one whose second point lies outside
  the rasters. Spatial references are EPSG codes, and the transformation
  between any two of them returns the point as it is.
\<close>

definition int16_raster :: "nat dataset" where
  "int16_raster =
     \<lparr>GetProjection = 3857, GetGeoTransform = (0, 1, 0, 0, 0, 1),
      RasterXSize = 4, RasterYSize = 4,
      band1 = (\<lambda>col row. [word_of_int (col + 4 * row), 0])\<rparr>"

definition float_raster :: "nat dataset" where
  "float_raster =
     \<lparr>GetProjection = 3857, GetGeoTransform = (0, 1, 0, 0, 0, 1),
      RasterXSize = 4, RasterYSize = 4,
      band1 = (\<lambda>col row. [0x00, 0x00, 0x80, 0x3F])\<rparr>"

definition flat_raster :: "nat dataset" where
  "flat_raster =
     \<lparr>GetProjection = 3857, GetGeoTransform = (0, 0, 0, 0, 0, 0),
      RasterXSize = 4, RasterYSize = 4,
      band1 = (\<lambda>col row. [0x00, 0x00])\<rparr>"

definition point_layer :: "nat layer" where
  "point_layer = \<lparr>GetSpatialRef = Some 3857, features = [(3 / 2, 5 / 2)]\<rparr>"

definition bare_layer :: "nat layer" where
  "bare_layer = \<lparr>GetSpatialRef = None, features = [(3 / 2, 5 / 2)]\<rparr>"

definition empty_layer :: "nat layer" where
  "empty_layer = \<lparr>GetSpatialRef = Some 3857, features = []\<rparr>"

definition track_layer :: "nat layer" where
  "track_layer =
     \<lparr>GetSpatialRef = Some 3857, features = [(3 / 2, 5 / 2), (1 / 2, 9 / 2), (1 / 2, 1 / 2)]\<rparr>"

definition small_world :: "nat world" where
  "small_world =
     \<lparr>gdal_Open = [''dem.tif'' \<mapsto> int16_raster, ''dem32.tif'' \<mapsto> float_raster,
                   ''flat.tif'' \<mapsto> flat_raster],
      ogr_Open = [''points.geojson'' \<mapsto> point_layer, ''bare.shp'' \<mapsto> bare_layer,
                  ''none.geojson'' \<mapsto> empty_layer, ''track.geojson'' \<mapsto> track_layer],
      ImportFromEPSG = (\<lambda>code. code),
      CoordinateTransformation = (\<lambda>src dst x y. (x, y, 0)),
      sys_byteorder = LittleEndian\<rparr>"

text \<open>A disk on which every path can be written and \<open>out.csv\<close> already holds a text.\<close>

definition small_disk :: filesystem where
  "small_disk = \<lparr>files = [''out.csv'' \<mapsto> ''stale''], writable = (\<lambda>path. True)\<rparr>"

section \<open>The loops, one point at a time\<close>

text \<open>
  With an inverse geotransform at hand, one turn of either loop reads the pixel of the point
  and either stops with the error of the read or of the unpacking, or goes on with one more
  row. The lemmas below follow a run through its points.
\<close>

subsection \<open>The loop of sampleRasterFromPointsList\<close>

lemma points_list_loop_step:
  "points_list_loop tr (Some rv) r ((f0, f1, f2) # rest) points rd =
     (case pixel_value r struct_unpack_le_h (pixel_of tr rv f1 f2) of
        Inl e \<Rightarrow> \<lparr>reads = rd @ [pixel_of tr rv f1 f2], outcome = Inl e\<rparr>
      | Inr elevation \<Rightarrow>
          points_list_loop tr (Some rv) r rest (points @ [(f0, f1, f2, elevation)])
            (rd @ [pixel_of tr rv f1 f2]))"
  by (simp add: pixel_of_def pixel_value_def Let_def split: prod.splits option.splits sum.splits)

lemma points_list_loop_rows:
  "outcome (points_list_loop tr (Some rv) r pts acc rd) = Inr rows \<Longrightarrow>
   \<exists>new. rows = acc @ new \<and>
     list_all2 (\<lambda>(f0, f1, f2) row. \<exists>el. row = (f0, f1, f2, el) \<and>
        pixel_value r struct_unpack_le_h (pixel_of tr rv f1 f2) = Inr el) pts new \<and>
     reads (points_list_loop tr (Some rv) r pts acc rd) = rd @ list_pixels tr rv pts"
proof (induction pts arbitrary: acc rd)
  case Nil
  then show ?case by simp
next
  case (Cons f pts)
  obtain f0 f1 f2 where f: "f = (f0, f1, f2)" by (cases f)
  show ?case
  proof (cases "pixel_value r struct_unpack_le_h (pixel_of tr rv f1 f2)")
    case (Inl e)
    with Cons.prems f show ?thesis by (simp add: points_list_loop_step del: points_list_loop.simps)
  next
    case (Inr el)
    with Cons.prems f have
      "outcome (points_list_loop tr (Some rv) r pts (acc @ [(f0, f1, f2, el)])
         (rd @ [pixel_of tr rv f1 f2])) = Inr rows"
      by (simp add: points_list_loop_step del: points_list_loop.simps)
    from Cons.IH [OF this] obtain new where
      new: "rows = (acc @ [(f0, f1, f2, el)]) @ new"
        "list_all2 (\<lambda>(f0, f1, f2) row. \<exists>el. row = (f0, f1, f2, el) \<and>
            pixel_value r struct_unpack_le_h (pixel_of tr rv f1 f2) = Inr el) pts new"
        "reads (points_list_loop tr (Some rv) r pts (acc @ [(f0, f1, f2, el)])
           (rd @ [pixel_of tr rv f1 f2])) = (rd @ [pixel_of tr rv f1 f2]) @ list_pixels tr rv pts"
      by blast
    show ?thesis
      apply (rule exI [of _ "(f0, f1, f2, el) # new"])
      using new Inr f
      by (simp add: points_list_loop_step del: points_list_loop.simps)
  qed
qed

declare points_list_loop.simps(2) [simp del]

lemma points_list_loop_no_inverse:
  "points_list_loop tr None r (f # rest) points rd =
     \<lparr>reads = rd, outcome = Inl TransformInversionError\<rparr>"
  by (cases f) (simp add: points_list_loop.simps(2) split: prod.splits)

lemma points_list_loop_returns:
  "\<forall>(f0, f1, f2) \<in> set pts.
      \<exists>el. pixel_value r struct_unpack_le_h (pixel_of tr rv f1 f2) = Inr el \<Longrightarrow>
   \<exists>rows. outcome (points_list_loop tr (Some rv) r pts acc rd) = Inr rows"
proof (induction pts arbitrary: acc rd)
  case Nil
  then show ?case by simp
next
  case (Cons f pts)
  obtain f0 f1 f2 where f: "f = (f0, f1, f2)" by (cases f)
  from Cons.prems f obtain el where
    el: "pixel_value r struct_unpack_le_h (pixel_of tr rv f1 f2) = Inr el" by auto
  from Cons.prems have
    "\<forall>(f0, f1, f2) \<in> set pts.
        \<exists>el. pixel_value r struct_unpack_le_h (pixel_of tr rv f1 f2) = Inr el" by simp
  from Cons.IH [OF this] show ?case
    by (simp add: f el points_list_loop_step)
qed

lemma points_list_loop_prefix:
  "\<forall>(f0, f1, f2) \<in> set ps.
      \<exists>el. pixel_value r struct_unpack_le_h (pixel_of tr rv f1 f2) = Inr el \<Longrightarrow>
   \<exists>new. length new = length ps \<and>
     points_list_loop tr (Some rv) r (ps @ qs) acc rd =
     points_list_loop tr (Some rv) r qs (acc @ new) (rd @ list_pixels tr rv ps)"
proof (induction ps arbitrary: acc rd)
  case Nil
  then show ?case by simp
next
  case (Cons f ps)
  obtain f0 f1 f2 where f: "f = (f0, f1, f2)" by (cases f)
  from Cons.prems f obtain el where
    el: "pixel_value r struct_unpack_le_h (pixel_of tr rv f1 f2) = Inr el" by auto
  from Cons.prems have
    "\<forall>(f0, f1, f2) \<in> set ps.
        \<exists>el. pixel_value r struct_unpack_le_h (pixel_of tr rv f1 f2) = Inr el" by simp
  from Cons.IH [OF this, of "acc @ [(f0, f1, f2, el)]" "rd @ [pixel_of tr rv f1 f2]"]
  obtain new where new: "length new = length ps"
    "points_list_loop tr (Some rv) r (ps @ qs) (acc @ [(f0, f1, f2, el)])
       (rd @ [pixel_of tr rv f1 f2]) =
     points_list_loop tr (Some rv) r qs ((acc @ [(f0, f1, f2, el)]) @ new)
       ((rd @ [pixel_of tr rv f1 f2]) @ list_pixels tr rv ps)"
    by blast
  show ?case
    apply (rule exI [of _ "(f0, f1, f2, el) # new"])
    using new by (simp add: f el points_list_loop_step)
qed

lemma points_list_loop_reads:
  "\<exists>n\<le>length pts. reads (points_list_loop tr (Some rv) r pts acc rd) =
      rd @ list_pixels tr rv (take n pts)"
proof (induction pts arbitrary: acc rd)
  case Nil
  then show ?case by simp
next
  case (Cons f pts)
  obtain f0 f1 f2 where f: "f = (f0, f1, f2)" by (cases f)
  show ?case
  proof (cases "pixel_value r struct_unpack_le_h (pixel_of tr rv f1 f2)")
    case (Inl e)
    then have "reads (points_list_loop tr (Some rv) r (f # pts) acc rd) =
        rd @ list_pixels tr rv (take 1 (f # pts))"
      by (simp add: f points_list_loop_step)
    then show ?thesis
      by (intro exI [of _ 1]) simp
  next
    case (Inr el)
    from Cons.IH [of "acc @ [(f0, f1, f2, el)]" "rd @ [pixel_of tr rv f1 f2]"]
    obtain n where n: "n \<le> length pts"
      "reads (points_list_loop tr (Some rv) r pts (acc @ [(f0, f1, f2, el)])
         (rd @ [pixel_of tr rv f1 f2])) =
       (rd @ [pixel_of tr rv f1 f2]) @ list_pixels tr rv (take n pts)"
      by blast
    then have "reads (points_list_loop tr (Some rv) r (f # pts) acc rd) =
        rd @ list_pixels tr rv (take (Suc n) (f # pts))"
      by (simp add: f Inr points_list_loop_step)
    with n(1) show ?thesis
      by (intro exI [of _ "Suc n"]) simp
  qed
qed

subsection \<open>The loop of rasterValuesAtPoints\<close>

lemma layer_loop_step:
  "layer_loop bo tr (Some rv) r ((gx, gy) # rest) points rd =
     (case pixel_value r (struct_unpack_f bo) (pixel_of tr rv gx gy) of
        Inl e \<Rightarrow> \<lparr>reads = rd @ [pixel_of tr rv gx gy], outcome = Inl e\<rparr>
      | Inr elevation \<Rightarrow>
          layer_loop bo tr (Some rv) r rest (points @ [(fst (snd (tr gx gy)), fst (tr gx gy), elevation)])
            (rd @ [pixel_of tr rv gx gy]))"
  by (simp add: pixel_of_def pixel_value_def Let_def split: prod.splits option.splits sum.splits)

lemma layer_loop_rows:
  "outcome (layer_loop bo tr (Some rv) r feats acc rd) = Inr rows \<Longrightarrow>
   \<exists>new. rows = acc @ new \<and>
     list_all2 (\<lambda>(gx, gy) row. \<exists>el. row = (fst (snd (tr gx gy)), fst (tr gx gy), el) \<and>
        pixel_value r (struct_unpack_f bo) (pixel_of tr rv gx gy) = Inr el) feats new \<and>
     reads (layer_loop bo tr (Some rv) r feats acc rd) = rd @ layer_pixels tr rv feats"
proof (induction feats arbitrary: acc rd)
  case Nil
  then show ?case by simp
next
  case (Cons f feats)
  obtain gx gy where f: "f = (gx, gy)" by (cases f)
  show ?case
  proof (cases "pixel_value r (struct_unpack_f bo) (pixel_of tr rv gx gy)")
    case (Inl e)
    with Cons.prems f show ?thesis by (simp add: layer_loop_step del: layer_loop.simps)
  next
    case (Inr el)
    with Cons.prems f have
      "outcome (layer_loop bo tr (Some rv) r feats (acc @ [(fst (snd (tr gx gy)), fst (tr gx gy), el)])
         (rd @ [pixel_of tr rv gx gy])) = Inr rows"
      by (simp add: layer_loop_step del: layer_loop.simps)
    from Cons.IH [OF this] obtain new where
      new: "rows = (acc @ [(fst (snd (tr gx gy)), fst (tr gx gy), el)]) @ new"
        "list_all2 (\<lambda>(gx, gy) row. \<exists>el. row = (fst (snd (tr gx gy)), fst (tr gx gy), el) \<and>
            pixel_value r (struct_unpack_f bo) (pixel_of tr rv gx gy) = Inr el) feats new"
        "reads (layer_loop bo tr (Some rv) r feats (acc @ [(fst (snd (tr gx gy)), fst (tr gx gy), el)])
           (rd @ [pixel_of tr rv gx gy])) = (rd @ [pixel_of tr rv gx gy]) @ layer_pixels tr rv feats"
      by blast
    show ?thesis
      apply (rule exI [of _ "(fst (snd (tr gx gy)), fst (tr gx gy), el) # new"])
      using new Inr f
      by (simp add: layer_loop_step del: layer_loop.simps)
  qed
qed

declare layer_loop.simps(2) [simp del]

lemma layer_loop_no_inverse:
  "layer_loop bo tr None r (f # rest) points rd =
     \<lparr>reads = rd, outcome = Inl TransformInversionError\<rparr>"
  by (cases f) (simp add: layer_loop.simps(2) split: prod.splits)

lemma layer_loop_returns:
  "\<forall>(gx, gy) \<in> set feats.
      \<exists>el. pixel_value r (struct_unpack_f bo) (pixel_of tr rv gx gy) = Inr el \<Longrightarrow>
   \<exists>rows. outcome (layer_loop bo tr (Some rv) r feats acc rd) = Inr rows"
proof (induction feats arbitrary: acc rd)
  case Nil
  then show ?case by simp
next
  case (Cons f feats)
  obtain gx gy where f: "f = (gx, gy)" by (cases f)
  from Cons.prems f obtain el where
    el: "pixel_value r (struct_unpack_f bo) (pixel_of tr rv gx gy) = Inr el" by auto
  from Cons.prems have
    "\<forall>(gx, gy) \<in> set feats.
        \<exists>el. pixel_value r (struct_unpack_f bo) (pixel_of tr rv gx gy) = Inr el" by simp
  from Cons.IH [OF this] show ?case
    by (simp add: f el layer_loop_step)
qed

lemma layer_loop_prefix:
  "\<forall>(gx, gy) \<in> set ps.
      \<exists>el. pixel_value r (struct_unpack_f bo) (pixel_of tr rv gx gy) = Inr el \<Longrightarrow>
   \<exists>new. length new = length ps \<and>
     layer_loop bo tr (Some rv) r (ps @ qs) acc rd =
     layer_loop bo tr (Some rv) r qs (acc @ new) (rd @ layer_pixels tr rv ps)"
proof (induction ps arbitrary: acc rd)
  case Nil
  then show ?case by simp
next
  case (Cons f ps)
  obtain gx gy where f: "f = (gx, gy)" by (cases f)
  from Cons.prems f obtain el where
    el: "pixel_value r (struct_unpack_f bo) (pixel_of tr rv gx gy) = Inr el" by auto
  from Cons.prems have
    "\<forall>(gx, gy) \<in> set ps.
        \<exists>el. pixel_value r (struct_unpack_f bo) (pixel_of tr rv gx gy) = Inr el" by simp
  from Cons.IH [OF this, of "acc @ [(fst (snd (tr gx gy)), fst (tr gx gy), el)]" "rd @ [pixel_of tr rv gx gy]"]
  obtain new where new: "length new = length ps"
    "layer_loop bo tr (Some rv) r (ps @ qs) (acc @ [(fst (snd (tr gx gy)), fst (tr gx gy), el)])
       (rd @ [pixel_of tr rv gx gy]) =
     layer_loop bo tr (Some rv) r qs ((acc @ [(fst (snd (tr gx gy)), fst (tr gx gy), el)]) @ new)
       ((rd @ [pixel_of tr rv gx gy]) @ layer_pixels tr rv ps)"
    by blast
  show ?case
    apply (rule exI [of _ "(fst (snd (tr gx gy)), fst (tr gx gy), el) # new"])
    using new by (simp add: f el layer_loop_step)
qed

lemma layer_loop_reads:
  "\<exists>n\<le>length feats. reads (layer_loop bo tr (Some rv) r feats acc rd) =
      rd @ layer_pixels tr rv (take n feats)"
proof (induction feats arbitrary: acc rd)
  case Nil
  then show ?case by simp
next
  case (Cons f feats)
  obtain gx gy where f: "f = (gx, gy)" by (cases f)
  show ?case
  proof (cases "pixel_value r (struct_unpack_f bo) (pixel_of tr rv gx gy)")
    case (Inl e)
    then have "reads (layer_loop bo tr (Some rv) r (f # feats) acc rd) =
        rd @ layer_pixels tr rv (take 1 (f # feats))"
      by (simp add: f layer_loop_step)
    then show ?thesis
      by (intro exI [of _ 1]) simp
  next
    case (Inr el)
    from Cons.IH [of "acc @ [(fst (snd (tr gx gy)), fst (tr gx gy), el)]" "rd @ [pixel_of tr rv gx gy]"]
    obtain n where n: "n \<le> length feats"
      "reads (layer_loop bo tr (Some rv) r feats (acc @ [(fst (snd (tr gx gy)), fst (tr gx gy), el)])
         (rd @ [pixel_of tr rv gx gy])) =
       (rd @ [pixel_of tr rv gx gy]) @ layer_pixels tr rv (take n feats)"
      by blast
    then have "reads (layer_loop bo tr (Some rv) r (f # feats) acc rd) =
        rd @ layer_pixels tr rv (take (Suc n) (f # feats))"
      by (simp add: f Inr layer_loop_step)
    with n(1) show ?thesis
      by (intro exI [of _ "Suc n"]) simp
  qed
qed

section \<open>Runs of the two functions\<close>

lemmas small_world_defs = small_world_def int16_raster_def float_raster_def flat_raster_def
  point_layer_def bare_layer_def empty_layer_def track_layer_def

lemmas run_simps = points_list_loop.simps(2) layer_loop.simps(2) ReadRaster_def math_floor_def

lemma sampleRasterFromPointsList_run:
  "gdal_Open w raster_file = Some r \<Longrightarrow>
   sampleRasterFromPointsList w raster_file pts =
     points_list_loop (CoordinateTransformation w (ImportFromEPSG w 3857) (GetProjection r))
       (InvGeoTransform (GetGeoTransform r)) r pts [] []"
  by (simp add: sampleRasterFromPointsList_def)

lemma rasterValuesAtPoints_run:
  "gdal_Open w raster_file = Some r \<Longrightarrow> ogr_Open w point_file = Some lyr \<Longrightarrow>
   GetSpatialRef lyr = Some pointSR \<Longrightarrow>
   rasterValuesAtPoints w raster_file point_file =
     layer_loop (sys_byteorder w) (CoordinateTransformation w pointSR (GetProjection r))
       (InvGeoTransform (GetGeoTransform r)) r (features lyr) [] []"
  by (simp add: rasterValuesAtPoints_def)

lemma rasterValuesAtPoints_returns:
  assumes "gdal_Open w raster_file = Some r"
    and "outcome (rasterValuesAtPoints w raster_file point_file) = Inr rows"
  obtains lyr pointSR where "ogr_Open w point_file = Some lyr" "GetSpatialRef lyr = Some pointSR"
  using assms by (auto simp: rasterValuesAtPoints_def split: option.splits)

lemma pixel_value_bytes:
  "pixel_value r unpack px = Inr el \<Longrightarrow> unpack (band1 r (fst px) (snd px)) = Inr el"
  by (simp add: pixel_value_def ReadRaster_def split: if_splits)

lemma pixel_value_in_raster:
  "pixel_value r unpack px = Inr el \<Longrightarrow>
   0 \<le> fst px \<and> fst px < RasterXSize r \<and> 0 \<le> snd px \<and> snd px < RasterYSize r"
  by (simp add: pixel_value_def ReadRaster_def split: if_splits)

subsection \<open>Unpacking\<close>

lemma struct_unpack_le_h_value:
  "struct_unpack_le_h [b0, b1] =
     Inr (if uint b0 + 256 * uint b1 < 32768 then uint b0 + 256 * uint b1
          else uint b0 + 256 * uint b1 - 65536)"
proof -
  define u where "u = uint b0 + 256 * uint b1"
  have b0: "0 \<le> uint b0" "uint b0 < 256" using uint_lt2p [of b0] by simp_all
  have b1: "0 \<le> uint b1" "uint b1 < 256" using uint_lt2p [of b1] by simp_all
  from b0 b1 have u: "0 \<le> u" "u < 65536" unfolding u_def by simp_all
  have "sint (word_of_int u :: 16 word) = (u + 32768) mod 65536 - 32768"
    by (simp add: sint_sbintrunc' signed_take_bit_eq_take_bit_shift take_bit_eq_mod)
  also have "\<dots> = (if u < 32768 then u else u - 65536)"
  proof (cases "u < 32768")
    case True
    with u have "(u + 32768) mod 65536 = u + 32768" by simp
    with True show ?thesis by simp
  next
    case False
    with u have "(u + 32768) mod 65536 = u + 32768 - 65536"
      by (simp add: mod_pos_geq)
    with False show ?thesis by simp
  qed
  finally show ?thesis by (simp add: u_def)
qed

lemma binary32_one: "binary32 1065353216 = Finite 1"
  by (simp add: binary32_def)

lemma list_run_decoded:
  assumes "gdal_Open w raster_file = Some r"
    and "outcome (sampleRasterFromPointsList w raster_file pts) = Inr rows"
  shows "list_all2 (\<lambda>(pixX, pixY) (f0, f1, f2, elevation).
            struct_unpack_le_h (band1 r pixX pixY) = Inr elevation)
           (reads (sampleRasterFromPointsList w raster_file pts)) rows"
proof (cases "InvGeoTransform (GetGeoTransform r)")
  case None
  with assms show ?thesis
    by (cases pts) (auto simp: sampleRasterFromPointsList_def points_list_loop_no_inverse)
next
  case (Some rv)
  define tr where "tr = CoordinateTransformation w (ImportFromEPSG w 3857) (GetProjection r)"
  have run: "sampleRasterFromPointsList w raster_file pts =
      points_list_loop tr (Some rv) r pts [] []"
    using assms(1) Some by (simp add: sampleRasterFromPointsList_run tr_def)
  from assms(2) have "outcome (points_list_loop tr (Some rv) r pts [] []) = Inr rows"
    by (simp add: run)
  from points_list_loop_rows [OF this] have
    rows: "list_all2 (\<lambda>(f0, f1, f2) row. \<exists>el. row = (f0, f1, f2, el) \<and>
        pixel_value r struct_unpack_le_h (pixel_of tr rv f1 f2) = Inr el) pts rows"
    and rd: "reads (points_list_loop tr (Some rv) r pts [] []) = list_pixels tr rv pts"
    by simp_all
  from rows have "list_all2 (\<lambda>p row.
      struct_unpack_le_h (band1 r (fst (pixel_of tr rv (fst (snd p)) (snd (snd p))))
        (snd (pixel_of tr rv (fst (snd p)) (snd (snd p))))) = Inr (snd (snd (snd row)))) pts rows"
    by (rule list_all2_mono) (auto dest: pixel_value_bytes)
  then show ?thesis
    by (simp add: run rd list_all2_map1 split_def)
qed

lemma layer_run_decoded:
  assumes "gdal_Open w raster_file = Some r"
    and "outcome (rasterValuesAtPoints w raster_file point_file) = Inr rows"
  shows "list_all2 (\<lambda>(pixX, pixY) (mapX, mapY, elevation).
            struct_unpack_f (sys_byteorder w) (band1 r pixX pixY) = Inr elevation)
           (reads (rasterValuesAtPoints w raster_file point_file)) rows"
proof -
  from assms obtain lyr pointSR where
    lyr: "ogr_Open w point_file = Some lyr" "GetSpatialRef lyr = Some pointSR"
    by (rule rasterValuesAtPoints_returns)
  define tr where "tr = CoordinateTransformation w pointSR (GetProjection r)"
  let ?bo = "sys_byteorder w"
  show ?thesis
  proof (cases "InvGeoTransform (GetGeoTransform r)")
    case None
    with assms lyr show ?thesis
      by (cases "features lyr")
        (auto simp: rasterValuesAtPoints_def layer_loop_no_inverse)
  next
    case (Some rv)
    have run: "rasterValuesAtPoints w raster_file point_file =
        layer_loop ?bo tr (Some rv) r (features lyr) [] []"
      using assms(1) lyr Some by (simp add: rasterValuesAtPoints_run tr_def)
    from assms(2) have "outcome (layer_loop ?bo tr (Some rv) r (features lyr) [] []) = Inr rows"
      by (simp add: run)
    from layer_loop_rows [OF this] have
      rows: "list_all2 (\<lambda>(gx, gy) row. \<exists>el. row = (fst (snd (tr gx gy)), fst (tr gx gy), el) \<and>
          pixel_value r (struct_unpack_f ?bo) (pixel_of tr rv gx gy) = Inr el) (features lyr) rows"
      and rd: "reads (layer_loop ?bo tr (Some rv) r (features lyr) [] []) =
          layer_pixels tr rv (features lyr)"
      by simp_all
    from rows have "list_all2 (\<lambda>p row.
        struct_unpack_f ?bo (band1 r (fst (pixel_of tr rv (fst p) (snd p)))
          (snd (pixel_of tr rv (fst p) (snd p)))) = Inr (snd (snd row))) (features lyr) rows"
      by (rule list_all2_mono) (auto dest: pixel_value_bytes)
    then show ?thesis
      by (simp add: run rd list_all2_map1 split_def)
  qed
qed

lemma list_run_reads:
  assumes "gdal_Open w raster_file = Some r"
    and "InvGeoTransform (GetGeoTransform r) = Some rv"
  shows "reads (sampleRasterFromPointsList w raster_file pts) =
     list_pixels (CoordinateTransformation w (ImportFromEPSG w 3857) (GetProjection r)) rv
       (take (length (reads (sampleRasterFromPointsList w raster_file pts))) pts)"
proof -
  let ?tr = "CoordinateTransformation w (ImportFromEPSG w 3857) (GetProjection r)"
  have run: "sampleRasterFromPointsList w raster_file pts =
      points_list_loop ?tr (Some rv) r pts [] []"
    using assms by (simp add: sampleRasterFromPointsList_run)
  from points_list_loop_reads [of pts ?tr rv r "[]" "[]"] obtain n where
    n: "n \<le> length pts" "reads (points_list_loop ?tr (Some rv) r pts [] []) =
       list_pixels ?tr rv (take n pts)"
    by auto
  from n have "length (reads (points_list_loop ?tr (Some rv) r pts [] [])) = n" by simp
  with n(2) show ?thesis by (simp add: run)
qed

lemma list_run_reads_all:
  assumes "gdal_Open w raster_file = Some r"
    and "InvGeoTransform (GetGeoTransform r) = Some rv"
    and "outcome (sampleRasterFromPointsList w raster_file pts) = Inr rows"
  shows "reads (sampleRasterFromPointsList w raster_file pts) =
     list_pixels (CoordinateTransformation w (ImportFromEPSG w 3857) (GetProjection r)) rv pts"
  using assms points_list_loop_rows
    [of "CoordinateTransformation w (ImportFromEPSG w 3857) (GetProjection r)" rv r pts "[]" "[]" rows]
  by (simp add: sampleRasterFromPointsList_run)

lemma layer_run_reads:
  assumes "gdal_Open w raster_file = Some r"
    and "InvGeoTransform (GetGeoTransform r) = Some rv"
    and "ogr_Open w point_file = Some lyr" and "GetSpatialRef lyr = Some pointSR"
  shows "reads (rasterValuesAtPoints w raster_file point_file) =
     layer_pixels (CoordinateTransformation w pointSR (GetProjection r)) rv
       (take (length (reads (rasterValuesAtPoints w raster_file point_file))) (features lyr))"
proof -
  let ?tr = "CoordinateTransformation w pointSR (GetProjection r)"
  let ?bo = "sys_byteorder w"
  have run: "rasterValuesAtPoints w raster_file point_file =
      layer_loop ?bo ?tr (Some rv) r (features lyr) [] []"
    using assms by (simp add: rasterValuesAtPoints_run)
  from layer_loop_reads [of "features lyr" ?bo ?tr rv r "[]" "[]"] obtain n where
    n: "n \<le> length (features lyr)"
       "reads (layer_loop ?bo ?tr (Some rv) r (features lyr) [] []) =
          layer_pixels ?tr rv (take n (features lyr))"
    by auto
  from n have "length (reads (layer_loop ?bo ?tr (Some rv) r (features lyr) [] [])) = n"
    by simp
  with n(2) show ?thesis by (simp add: run)
qed

lemma layer_run_rows:
  assumes "gdal_Open w raster_file = Some r"
    and "InvGeoTransform (GetGeoTransform r) = Some rv"
    and "ogr_Open w point_file = Some lyr" and "GetSpatialRef lyr = Some pointSR"
    and "outcome (rasterValuesAtPoints w raster_file point_file) = Inr rows"
  shows "reads (rasterValuesAtPoints w raster_file point_file) =
     layer_pixels (CoordinateTransformation w pointSR (GetProjection r)) rv (features lyr)"
    and "map (\<lambda>(mapX, mapY, elevation). (mapX, mapY)) rows =
      map (\<lambda>(gx, gy). case CoordinateTransformation w pointSR (GetProjection r) gx gy of
             (p0, p1, p2) \<Rightarrow> (p1, p0)) (features lyr)"
proof -
  let ?tr = "CoordinateTransformation w pointSR (GetProjection r)"
  let ?bo = "sys_byteorder w"
  have run: "rasterValuesAtPoints w raster_file point_file =
      layer_loop ?bo ?tr (Some rv) r (features lyr) [] []"
    using assms by (simp add: rasterValuesAtPoints_run)
  from assms(5) have "outcome (layer_loop ?bo ?tr (Some rv) r (features lyr) [] []) = Inr rows"
    by (simp add: run)
  from layer_loop_rows [OF this] have
    rows: "list_all2 (\<lambda>(gx, gy) row. \<exists>el. row = (fst (snd (?tr gx gy)), fst (?tr gx gy), el) \<and>
        pixel_value r (struct_unpack_f ?bo) (pixel_of ?tr rv gx gy) = Inr el) (features lyr) rows"
    and rd: "reads (layer_loop ?bo ?tr (Some rv) r (features lyr) [] []) =
        layer_pixels ?tr rv (features lyr)"
    by simp_all
  from rd show "reads (rasterValuesAtPoints w raster_file point_file) =
     layer_pixels ?tr rv (features lyr)"
    by (simp add: run)
  from rows have "list_all2 (\<lambda>p row. (fst row, fst (snd row)) =
      (fst (snd (?tr (fst p) (snd p))), fst (?tr (fst p) (snd p)))) (features lyr) rows"
    by (rule list_all2_mono) auto
  then have "list_all2 (\<lambda>p row. (case row of (mapX, mapY, elevation) \<Rightarrow> (mapX, mapY)) =
      (case p of (gx, gy) \<Rightarrow> case ?tr gx gy of (p0, p1, p2) \<Rightarrow> (p1, p0))) (features lyr) rows"
    by (simp add: split_def)
  then show "map (\<lambda>(mapX, mapY, elevation). (mapX, mapY)) rows =
      map (\<lambda>(gx, gy). case ?tr gx gy of (p0, p1, p2) \<Rightarrow> (p1, p0)) (features lyr)"
    by (induction rule: list_all2_induct) simp_all
qed

lemma list_run_single_read:
  assumes "gdal_Open w raster_file = Some r"
    and "InvGeoTransform (GetGeoTransform r) = Some rv"
  shows "reads (sampleRasterFromPointsList w raster_file [(f0, f1, f2)]) =
     [pixel_of (CoordinateTransformation w (ImportFromEPSG w 3857) (GetProjection r)) rv f1 f2]"
  using assms
  by (simp add: sampleRasterFromPointsList_run points_list_loop_step split: sum.splits)

lemma layer_run_single_read:
  assumes "gdal_Open w raster_file = Some r"
    and "InvGeoTransform (GetGeoTransform r) = Some rv"
    and "ogr_Open w point_file = Some lyr" and "GetSpatialRef lyr = Some pointSR"
    and "features lyr = [(gx, gy)]"
  shows "reads (rasterValuesAtPoints w raster_file point_file) =
     [pixel_of (CoordinateTransformation w pointSR (GetProjection r)) rv gx gy]"
  using assms
  by (simp add: rasterValuesAtPoints_run layer_loop_step split: sum.splits)

lemma pixel_of_unit_pixels:
  "tr x y = (x, y, z) \<Longrightarrow> pixel_of tr (0, 1, 0, 0, 0, 1) x y = (\<lfloor>y\<rfloor>, \<lfloor>x\<rfloor>)"
  by (simp add: pixel_of_def math_floor_def)

lemma pixel_of_unit_pixels_all:
  assumes "\<forall>x y. \<exists>z. tr x y = (x, y, z)"
  shows "pixel_of tr (0, 1, 0, 0, 0, 1) x y = (\<lfloor>y\<rfloor>, \<lfloor>x\<rfloor>)"
proof -
  from assms obtain z where "tr x y = (x, y, z)" by blast
  then show ?thesis by (rule pixel_of_unit_pixels)
qed

lemma pixel_of_swapped:
  "pixel_of tr (a0, a1, a2, a3, a4, a5) x y =
     (case tr x y of (first, second, third) \<Rightarrow>
        (\<lfloor>a0 + second * a1 + first * a2\<rfloor>, \<lfloor>a3 + second * a4 + first * a5\<rfloor>))"
  by (simp add: pixel_of_def math_floor_def split: prod.splits)

lemma math_floor_bounds: "real_of_int (math_floor c) \<le> c \<and> c < real_of_int (math_floor c) + 1"
  by (simp add: math_floor_def)

lemma pixel_of_floor:
  "pixel_of tr rv x y =
     (case tr x y of (p0, p1, p2) \<Rightarrow>
        (case ApplyGeoTransform rv p1 p0 of (c0, c1) \<Rightarrow> (math_floor c0, math_floor c1)))"
  by (simp add: pixel_of_def)

lemma list_all2_lhs_member:
  "list_all2 P xs ys \<Longrightarrow> x \<in> set xs \<Longrightarrow> \<exists>y. P x y"
  by (induction rule: list_all2_induct) auto

lemma pixel_value_outside:
  "\<not> (0 \<le> pixX \<and> pixX < RasterXSize r \<and> 0 \<le> pixY \<and> pixY < RasterYSize r) \<Longrightarrow>
   pixel_value r unpack (pixX, pixY) = Inl PixelReadError"
  by (auto simp: pixel_value_def ReadRaster_def)

lemma points_list_loop_rows_ok:
  assumes "outcome (points_list_loop tr (Some rv) r pts acc rd) = Inr rows"
    and "(f0, f1, f2) \<in> set pts"
  shows "\<exists>el. pixel_value r struct_unpack_le_h (pixel_of tr rv f1 f2) = Inr el"
proof -
  from points_list_loop_rows [OF assms(1)] obtain new where
    "list_all2 (\<lambda>(f0, f1, f2) row. \<exists>el. row = (f0, f1, f2, el) \<and>
        pixel_value r struct_unpack_le_h (pixel_of tr rv f1 f2) = Inr el) pts new"
    by blast
  from list_all2_lhs_member [OF this assms(2)] show ?thesis by auto
qed

lemma layer_loop_rows_ok:
  assumes "outcome (layer_loop bo tr (Some rv) r feats acc rd) = Inr rows"
    and "(gx, gy) \<in> set feats"
  shows "\<exists>el. pixel_value r (struct_unpack_f bo) (pixel_of tr rv gx gy) = Inr el"
proof -
  from layer_loop_rows [OF assms(1)] obtain new where
    "list_all2 (\<lambda>(gx, gy) row. \<exists>el. row = (fst (snd (tr gx gy)), fst (tr gx gy), el) \<and>
        pixel_value r (struct_unpack_f bo) (pixel_of tr rv gx gy) = Inr el) feats new"
    by blast
  from list_all2_lhs_member [OF this assms(2)] show ?thesis by auto
qed

lemma points_list_loop_stops:
  assumes "\<forall>(g0, g1, g2) \<in> set ps.
      \<exists>el. pixel_value r struct_unpack_le_h (pixel_of tr rv g1 g2) = Inr el"
    and "pixel_value r struct_unpack_le_h (pixel_of tr rv f1 f2) = Inl e"
  shows "points_list_loop tr (Some rv) r (ps @ (f0, f1, f2) # qs) acc rd =
     \<lparr>reads = rd @ list_pixels tr rv ps @ [pixel_of tr rv f1 f2], outcome = Inl e\<rparr>"
proof -
  from points_list_loop_prefix [OF assms(1), of "(f0, f1, f2) # qs" acc rd]
  obtain new where
    "points_list_loop tr (Some rv) r (ps @ (f0, f1, f2) # qs) acc rd =
     points_list_loop tr (Some rv) r ((f0, f1, f2) # qs) (acc @ new) (rd @ list_pixels tr rv ps)"
    by blast
  with assms(2) show ?thesis by (simp add: points_list_loop_step)
qed

lemma layer_loop_stops:
  assumes "\<forall>(hx, hy) \<in> set ps.
      \<exists>el. pixel_value r (struct_unpack_f bo) (pixel_of tr rv hx hy) = Inr el"
    and "pixel_value r (struct_unpack_f bo) (pixel_of tr rv gx gy) = Inl e"
  shows "layer_loop bo tr (Some rv) r (ps @ (gx, gy) # qs) acc rd =
     \<lparr>reads = rd @ layer_pixels tr rv ps @ [pixel_of tr rv gx gy], outcome = Inl e\<rparr>"
proof -
  from layer_loop_prefix [OF assms(1), of "(gx, gy) # qs" acc rd]
  obtain new where
    "layer_loop bo tr (Some rv) r (ps @ (gx, gy) # qs) acc rd =
     layer_loop bo tr (Some rv) r ((gx, gy) # qs) (acc @ new) (rd @ layer_pixels tr rv ps)"
    by blast
  with assms(2) show ?thesis by (simp add: layer_loop_step)
qed

lemma struct_unpack_le_h_returns:
  "length bs = 2 \<Longrightarrow> \<exists>el. struct_unpack_le_h bs = Inr el"
  by (cases bs rule: struct_unpack_le_h.cases) simp_all

lemma list_rows_strip:
  "list_all2 (\<lambda>(f0, f1, f2) row. \<exists>el. row = (f0, f1, f2, el) \<and> Q f1 f2 el) pts rows \<Longrightarrow>
   map (\<lambda>(f0, f1, f2, elevation). (f0, f1, f2)) rows = pts"
  by (induction rule: list_all2_induct) auto

lemma list_run_rows:
  assumes "outcome (sampleRasterFromPointsList w raster_file pts) = Inr rows"
  shows "length rows = length pts \<and>
     map (\<lambda>(f0, f1, f2, elevation). (f0, f1, f2)) rows = pts"
proof (cases "gdal_Open w raster_file")
  case None
  with assms show ?thesis by (simp add: sampleRasterFromPointsList_def)
next
  case (Some r)
  let ?tr = "CoordinateTransformation w (ImportFromEPSG w 3857) (GetProjection r)"
  show ?thesis
  proof (cases "InvGeoTransform (GetGeoTransform r)")
    case None
    with assms Some show ?thesis
      by (cases pts) (auto simp: sampleRasterFromPointsList_run points_list_loop_no_inverse)
  next
    case (Some rv)
    with assms \<open>gdal_Open w raster_file = Some r\<close>
    have "outcome (points_list_loop ?tr (Some rv) r pts [] []) = Inr rows"
      by (simp add: sampleRasterFromPointsList_run)
    from points_list_loop_rows [OF this] have
      rows: "list_all2 (\<lambda>(f0, f1, f2) row. \<exists>el. row = (f0, f1, f2, el) \<and>
        pixel_value r struct_unpack_le_h (pixel_of ?tr rv f1 f2) = Inr el) pts rows"
      by simp
    from list_all2_lengthD [OF rows] list_rows_strip [OF rows] show ?thesis by simp
  qed
qed

section \<open>The text of the CSV file\<close>

lemma writerows_text:
  "writerows render grid buf = buf @ concat (map (\<lambda>row. writerow (map render row)) grid)"
  by (induction grid arbitrary: buf) simp_all

lemma join_comma_no_breaks:
  "\<forall>f \<in> set cells. CR \<notin> set f \<and> LF \<notin> set f \<Longrightarrow>
   CR \<notin> set (join '','' cells) \<and> LF \<notin> set (join '','' cells)"
  by (induction "'',''" cells rule: join.induct) (simp_all add: CR_def LF_def)

lemma splitlines_char:
  "c \<noteq> CR \<Longrightarrow> c \<noteq> LF \<Longrightarrow> s \<noteq> [] \<Longrightarrow> splitlines cur (c # s) = splitlines (cur @ [c]) s"
  by (cases s) simp_all

lemma splitlines_line:
  "CR \<notin> set l \<Longrightarrow> LF \<notin> set l \<Longrightarrow>
   splitlines cur (l @ CR # LF # rest) = (cur @ l) # splitlines [] rest"
proof (induction l arbitrary: cur)
  case Nil
  then show ?case by simp
next
  case (Cons c l)
  from Cons.prems have c: "c \<noteq> CR" "c \<noteq> LF" and l: "CR \<notin> set l" "LF \<notin> set l"
    by auto
  have "splitlines cur (c # (l @ CR # LF # rest)) =
      splitlines (cur @ [c]) (l @ CR # LF # rest)"
    using c by (rule splitlines_char) simp
  also have "\<dots> = ((cur @ [c]) @ l) # splitlines [] rest"
    using l by (rule Cons.IH)
  finally show ?case by simp
qed

lemma splitlines_rows:
  "\<forall>l \<in> set ls. CR \<notin> set l \<and> LF \<notin> set l \<Longrightarrow>
   splitlines [] (concat (map (\<lambda>l. l @ [CR, LF]) ls)) = ls"
  by (induction ls) (simp_all add: splitlines_line)

lemma header_row: "writerow [''x'', ''y'', ''elevation''] = ''x,y,elevation'' @ [CR, LF]"
  by (simp add: writerow_def)

lemma gridWithElevation2csv_text:
  "writable fs outfile \<Longrightarrow>
   gridWithElevation2csv render grid outfile fs =
     Inr (fs\<lparr>files := (files fs)(outfile \<mapsto>
       concat (map (\<lambda>l. l @ [CR, LF])
         (''x,y,elevation'' # map (\<lambda>row. join '','' (map render row)) grid)))\<rparr>)"
  by (simp add: gridWithElevation2csv_def writerows_text header_row writerow_def comp_def)

subsection \<open>The value of a float from its sign, exponent and fraction\<close>

text \<open>
  The bit pattern with fraction \<open>m\<close>, biased exponent \<open>e\<close> and sign \<open>s\<close> is
  \<open>m + 2 ^ 23 * (e + 256 * s)\<close>. Its value is \<open>(1 + m / 2 ^ 23) * 2 ^ (e - 127)\<close> with the
  sign for a normal number, \<open>(m / 2 ^ 23) * 2 ^ (- 126)\<close> for exponent 0, and an infinity or
  NaN for exponent 255.
\<close>

lemma binary32_fields:
  assumes "m < 8388608" and "e < 256" and "s < 2"
  shows "binary32 (m + 8388608 * (e + 256 * s)) =
     (if e = 255 then (if m = 0 then (if s = 1 then NegInf else PosInf) else NaN)
      else if e = 0 then Finite ((if s = 1 then - 1 else 1) * (real m / 2 ^ 23) / 2 ^ 126)
      else if 127 \<le> e
        then Finite ((if s = 1 then - 1 else 1) * (1 + real m / 2 ^ 23) * 2 ^ (e - 127))
        else Finite ((if s = 1 then - 1 else 1) * (1 + real m / 2 ^ 23) / 2 ^ (127 - e)))"
proof -
  define k where "k = e + 256 * s"
  define n where "n = m + 8388608 * k"
  have frac: "n mod 8388608 = m"
    using assms(1) by (simp add: n_def)
  have hi: "n div 8388608 = k"
    using assms(1) by (simp add: n_def)
  have expo: "n div 8388608 mod 256 = e"
    using assms(2) by (simp add: hi k_def)
  have "n div (8388608 * 256) = n div 8388608 div 256"
    by (rule div_mult2_eq)
  then have sign: "n div 2147483648 = s"
    using assms(2) by (simp add: hi k_def)
  have p1: "(2::real) ^ (e - 127) = 2 ^ 23 * 2 ^ (e - 150)" if "150 \<le> e"
  proof -
    from that have "e - 127 = 23 + (e - 150)" by simp
    then show ?thesis by (simp only: power_add)
  qed
  have p2: "(2::real) ^ 23 = 2 ^ (e - 127) * 2 ^ (150 - e)" if "127 \<le> e" "e < 150"
  proof -
    from that have "23 = (e - 127) + (150 - e)" by simp
    then show ?thesis by (simp only: power_add [symmetric])
  qed
  have p3: "(2::real) ^ (150 - e) = 2 ^ 23 * 2 ^ (127 - e)" if "e < 127"
  proof -
    from that have "150 - e = 23 + (127 - e)" by simp
    then show ?thesis by (simp only: power_add)
  qed
  have p4: "(2::real) ^ 149 = 2 ^ 23 * 2 ^ 126"
    by simp
  let ?sg = "if s = 1 then - 1 else 1 :: real"
  have v1: "?sg * real (2 ^ 23 + m) * 2 ^ (e - 150) =
      ?sg * (1 + real m / 2 ^ 23) * 2 ^ (e - 127)" if "150 \<le> e"
    by (simp only: p1 [OF that]) (simp add: field_simps)
  have v2: "?sg * real (2 ^ 23 + m) / 2 ^ (150 - e) =
      ?sg * (1 + real m / 2 ^ 23) * 2 ^ (e - 127)" if "127 \<le> e" "e < 150"
  proof -
    have "real (2 ^ 23 + m) = (1 + real m / 2 ^ 23) * (2 ^ (e - 127) * 2 ^ (150 - e))"
      by (simp only: p2 [OF that, symmetric]) (simp add: field_simps)
    then show ?thesis by simp
  qed
  have v3: "?sg * real (2 ^ 23 + m) / 2 ^ (150 - e) =
      ?sg * (1 + real m / 2 ^ 23) / 2 ^ (127 - e)" if "e < 127"
    by (simp only: p3 [OF that]) (simp add: field_simps)
  have v4: "?sg * real m / 2 ^ 149 = ?sg * (real m / 2 ^ 23) / 2 ^ 126"
    by (simp only: p4) simp
  have "binary32 n =
     (if e = 255 then (if m = 0 then (if s = 1 then NegInf else PosInf) else NaN)
      else if e = 0 then Finite (?sg * real m / 2 ^ 149)
      else if 150 \<le> e then Finite (?sg * real (2 ^ 23 + m) * 2 ^ (e - 150))
      else Finite (?sg * real (2 ^ 23 + m) / 2 ^ (150 - e)))"
    by (simp add: binary32_def Let_def frac expo sign)
  also have "\<dots> =
     (if e = 255 then (if m = 0 then (if s = 1 then NegInf else PosInf) else NaN)
      else if e = 0 then Finite (?sg * (real m / 2 ^ 23) / 2 ^ 126)
      else if 127 \<le> e then Finite (?sg * (1 + real m / 2 ^ 23) * 2 ^ (e - 127))
      else Finite (?sg * (1 + real m / 2 ^ 23) / 2 ^ (127 - e)))"
  proof -
    consider "e = 255" | "e = 0" | "150 \<le> e" "e \<noteq> 255"
      | "127 \<le> e" "e < 150" | "e < 127" "e \<noteq> 0"
      by linarith
    then show ?thesis
    proof cases
      case 1 then show ?thesis by simp
    next
      case 2 then show ?thesis by (simp only: v4) simp
    next
      case 3 then show ?thesis using v1 [OF 3(1)] by simp
    next
      case 4 then show ?thesis using v2 [OF 4] by simp
    next
      case 5 then show ?thesis using v3 [OF 5(1)] by simp
    qed
  qed
  finally show ?thesis by (simp only: n_def k_def)
qed

lemma struct_unpack_f_fields:
  "struct_unpack_f LittleEndian [c0, c1, c2, c3] =
     Inr (let s = unat c3 div 128;
              e = 2 * (unat c3 mod 128) + unat c2 div 128;
              m = 65536 * (unat c2 mod 128) + 256 * unat c1 + unat c0
          in if e = 255 then (if m = 0 then (if s = 1 then NegInf else PosInf) else NaN)
             else if e = 0
               then Finite ((if s = 1 then - 1 else 1) * (real m / 2 ^ 23) / 2 ^ 126)
             else if 127 \<le> e
               then Finite ((if s = 1 then - 1 else 1) * (1 + real m / 2 ^ 23) * 2 ^ (e - 127))
               else Finite ((if s = 1 then - 1 else 1) * (1 + real m / 2 ^ 23) / 2 ^ (127 - e)))"
proof -
  define q2 where "q2 = unat c2 div 128"
  define r2 where "r2 = unat c2 mod 128"
  define q3 where "q3 = unat c3 div 128"
  define r3 where "r3 = unat c3 mod 128"
  define s where "s = q3"
  define e where "e = 2 * r3 + q2"
  define m where "m = 65536 * r2 + 256 * unat c1 + unat c0"
  have b: "unat c0 < 256" "unat c1 < 256" "unat c2 < 256" "unat c3 < 256"
    using unsigned_less [of c0, where ?'a = nat] unsigned_less [of c1, where ?'a = nat]
      unsigned_less [of c2, where ?'a = nat] unsigned_less [of c3, where ?'a = nat]
    by simp_all
  have c2: "unat c2 = 128 * q2 + r2" by (simp add: q2_def r2_def)
  have c3: "unat c3 = 128 * q3 + r3" by (simp add: q3_def r3_def)
  have r: "r2 < 128" "r3 < 128" by (simp_all add: r2_def r3_def)
  have q: "q2 < 2" "q3 < 2" using b by (simp_all add: q2_def q3_def)
  have n: "unat c0 + 256 * unat c1 + 65536 * unat c2 + 16777216 * unat c3 =
      m + 8388608 * (e + 256 * s)"
    by (simp add: c2 c3 m_def e_def s_def)
  have "m < 8388608" using b r unfolding m_def by simp
  moreover have "e < 256" using r q unfolding e_def by simp
  moreover have "s < 2" using q unfolding s_def by simp
  ultimately have "binary32 (m + 8388608 * (e + 256 * s)) =
     (if e = 255 then (if m = 0 then (if s = 1 then NegInf else PosInf) else NaN)
      else if e = 0 then Finite ((if s = 1 then - 1 else 1) * (real m / 2 ^ 23) / 2 ^ 126)
      else if 127 \<le> e
        then Finite ((if s = 1 then - 1 else 1) * (1 + real m / 2 ^ 23) * 2 ^ (e - 127))
        else Finite ((if s = 1 then - 1 else 1) * (1 + real m / 2 ^ 23) / 2 ^ (127 - e)))"
    by (rule binary32_fields)
  then show ?thesis
    by (simp only: struct_unpack_f.simps n Let_def m_def e_def s_def q2_def r2_def q3_def r3_def)
qed

lemma struct_unpack_f_byteorder:
  "struct_unpack_f BigEndian [c3, c2, c1, c0] = struct_unpack_f LittleEndian [c0, c1, c2, c3]"
  by simp

lemma struct_unpack_f_size:
  "(\<exists>v. struct_unpack_f bo bs = Inr v) = (length bs = 4)"
  by (cases "(bo, bs)" rule: struct_unpack_f.cases) auto

lemma struct_unpack_le_h_size:
  "(\<exists>v. struct_unpack_le_h bs = Inr v) = (length bs = 2)"
  by (cases bs rule: struct_unpack_le_h.cases) auto

section \<open>The claims\<close>

text \<open>
  C3. Every pixel that a run of \<open>sampleRasterFromPointsList\<close> reads is unpacked as a signed
  16-bit little-endian integer, and every pixel that a run of \<open>rasterValuesAtPoints\<close> reads is
  unpacked as a 32-bit IEEE float in the host's byte order: the elevation of each row is that
  unpacking of the bytes of band 1 at the window read for the row. The bytes 0x01 0x00 unpack
  to the integer 1, and the four bytes of the float 1.0 unpack to 1.0.

  Both unpackings are given for every buffer. Two bytes unpack to the two's complement value
  of \<open>b0 + 256 * b1\<close>, and only two bytes unpack. Four bytes unpack to the value of the IEEE
  754 binary32 number whose sign is the top bit of the most significant byte, whose biased
  exponent is the next eight bits and whose fraction is the remaining 23 bits; a big-endian
  host reads the same four bytes in the opposite order; and only four bytes unpack.
\<close>

theorem pixel_decoding_by_call_path:
  "(gdal_Open w list_raster = Some r \<and>
    outcome (sampleRasterFromPointsList w list_raster pts) = Inr rows \<longrightarrow>
      list_all2 (\<lambda>(pixX, pixY) (f0, f1, f2, elevation).
          struct_unpack_le_h (band1 r pixX pixY) = Inr elevation)
        (reads (sampleRasterFromPointsList w list_raster pts)) rows) \<and>
   (gdal_Open w file_raster = Some r' \<and>
    outcome (rasterValuesAtPoints w file_raster point_file) = Inr rows' \<longrightarrow>
      list_all2 (\<lambda>(pixX, pixY) (mapX, mapY, elevation).
          struct_unpack_f (sys_byteorder w) (band1 r' pixX pixY) = Inr elevation)
        (reads (rasterValuesAtPoints w file_raster point_file)) rows') \<and>
   struct_unpack_le_h [b0, b1] =
     Inr (if uint b0 + 256 * uint b1 < 32768 then uint b0 + 256 * uint b1
          else uint b0 + 256 * uint b1 - 65536) \<and>
   struct_unpack_le_h [0x01, 0x00] = Inr 1 \<and>
   struct_unpack_f LittleEndian [0x00, 0x00, 0x80, 0x3F] = Inr (Finite 1) \<and>
   struct_unpack_f BigEndian [0x3F, 0x80, 0x00, 0x00] = Inr (Finite 1) \<and>
   struct_unpack_f LittleEndian [c0, c1, c2, c3] =
     Inr (let s = unat c3 div 128;
              e = 2 * (unat c3 mod 128) + unat c2 div 128;
              m = 65536 * (unat c2 mod 128) + 256 * unat c1 + unat c0
          in if e = 255 then (if m = 0 then (if s = 1 then NegInf else PosInf) else NaN)
             else if e = 0
               then Finite ((if s = 1 then - 1 else 1) * (real m / 2 ^ 23) / 2 ^ 126)
             else if 127 \<le> e
               then Finite ((if s = 1 then - 1 else 1) * (1 + real m / 2 ^ 23) * 2 ^ (e - 127))
               else Finite ((if s = 1 then - 1 else 1) * (1 + real m / 2 ^ 23) / 2 ^ (127 - e))) \<and>
   struct_unpack_f BigEndian [c3, c2, c1, c0] = struct_unpack_f LittleEndian [c0, c1, c2, c3] \<and>
   (\<exists>v. struct_unpack_f bo bs = Inr v) = (length bs = 4) \<and>
   (\<exists>v. struct_unpack_le_h bs' = Inr v) = (length bs' = 2) \<and>
   struct_unpack_f LittleEndian [0x00, 0x00, 0x20, 0xC0] = Inr (Finite (- 2.5)) \<and>
   struct_unpack_f LittleEndian [0x00, 0xC0, 0xAE, 0x43] = Inr (Finite 349.5) \<and>
   struct_unpack_f LittleEndian [0x01, 0x00, 0x00, 0x00] = Inr (Finite (1 / 2 ^ 149)) \<and>
   struct_unpack_f LittleEndian [0x00, 0x00, 0x80, 0x7F] = Inr PosInf"
proof (intro conjI impI)
  assume "gdal_Open w list_raster = Some r \<and>
    outcome (sampleRasterFromPointsList w list_raster pts) = Inr rows"
  then show "list_all2 (\<lambda>(pixX, pixY) (f0, f1, f2, elevation).
          struct_unpack_le_h (band1 r pixX pixY) = Inr elevation)
        (reads (sampleRasterFromPointsList w list_raster pts)) rows"
    by (blast intro: list_run_decoded)
next
  assume "gdal_Open w file_raster = Some r' \<and>
    outcome (rasterValuesAtPoints w file_raster point_file) = Inr rows'"
  then show "list_all2 (\<lambda>(pixX, pixY) (mapX, mapY, elevation).
          struct_unpack_f (sys_byteorder w) (band1 r' pixX pixY) = Inr elevation)
        (reads (rasterValuesAtPoints w file_raster point_file)) rows'"
    by (blast intro: layer_run_decoded)
next
  show "struct_unpack_le_h [b0, b1] =
     Inr (if uint b0 + 256 * uint b1 < 32768 then uint b0 + 256 * uint b1
          else uint b0 + 256 * uint b1 - 65536)"
    by (rule struct_unpack_le_h_value)
next
  show "struct_unpack_le_h [0x01, 0x00] = Inr 1" by simp
next
  show "struct_unpack_f LittleEndian [0x00, 0x00, 0x80, 0x3F] = Inr (Finite 1)"
    by (simp add: binary32_one)
next
  show "struct_unpack_f BigEndian [0x3F, 0x80, 0x00, 0x00] = Inr (Finite 1)"
    by (simp add: binary32_one)
next
  show "struct_unpack_f LittleEndian [c0, c1, c2, c3] =
     Inr (let s = unat c3 div 128;
              e = 2 * (unat c3 mod 128) + unat c2 div 128;
              m = 65536 * (unat c2 mod 128) + 256 * unat c1 + unat c0
          in if e = 255 then (if m = 0 then (if s = 1 then NegInf else PosInf) else NaN)
             else if e = 0
               then Finite ((if s = 1 then - 1 else 1) * (real m / 2 ^ 23) / 2 ^ 126)
             else if 127 \<le> e
               then Finite ((if s = 1 then - 1 else 1) * (1 + real m / 2 ^ 23) * 2 ^ (e - 127))
               else Finite ((if s = 1 then - 1 else 1) * (1 + real m / 2 ^ 23) / 2 ^ (127 - e)))"
    by (rule struct_unpack_f_fields)
next
  show "struct_unpack_f BigEndian [c3, c2, c1, c0] = struct_unpack_f LittleEndian [c0, c1, c2, c3]"
    by (rule struct_unpack_f_byteorder)
next
  show "(\<exists>v. struct_unpack_f bo bs = Inr v) = (length bs = 4)"
    by (rule struct_unpack_f_size)
next
  show "(\<exists>v. struct_unpack_le_h bs' = Inr v) = (length bs' = 2)"
    by (rule struct_unpack_le_h_size)
next
  show "struct_unpack_f LittleEndian [0x00, 0x00, 0x20, 0xC0] = Inr (Finite (- 2.5))"
    by (simp add: binary32_def)
next
  show "struct_unpack_f LittleEndian [0x00, 0xC0, 0xAE, 0x43] = Inr (Finite 349.5)"
    by (simp add: binary32_def)
next
  show "struct_unpack_f LittleEndian [0x01, 0x00, 0x00, 0x00] = Inr (Finite (1 / 2 ^ 149))"
    by (simp add: binary32_def)
next
  show "struct_unpack_f LittleEndian [0x00, 0x00, 0x80, 0x7F] = Inr PosInf"
    by (simp add: binary32_def)
qed

theorem pixel_decoding_by_call_path_witness:
  "gdal_Open small_world ''dem.tif'' = Some int16_raster \<and>
   outcome (sampleRasterFromPointsList small_world ''dem.tif'' [(7::nat, 3 / 2, 5 / 2)]) =
     Inr [(7, 3 / 2, 5 / 2, 6)] \<and>
   list_all2 (\<lambda>(pixX, pixY) (f0, f1, f2, elevation).
       struct_unpack_le_h (band1 int16_raster pixX pixY) = Inr elevation)
     (reads (sampleRasterFromPointsList small_world ''dem.tif'' [(7::nat, 3 / 2, 5 / 2)]))
     [(7, 3 / 2, 5 / 2, 6)] \<and>
   gdal_Open small_world ''dem32.tif'' = Some float_raster \<and>
   outcome (rasterValuesAtPoints small_world ''dem32.tif'' ''points.geojson'') =
     Inr [(5 / 2, 3 / 2, Finite 1)] \<and>
   list_all2 (\<lambda>(pixX, pixY) (mapX, mapY, elevation).
       struct_unpack_f (sys_byteorder small_world) (band1 float_raster pixX pixY) = Inr elevation)
     (reads (rasterValuesAtPoints small_world ''dem32.tif'' ''points.geojson''))
     [(5 / 2, 3 / 2, Finite 1)]"
  using pixel_decoding_by_call_path [where w = small_world and list_raster = "''dem.tif''"
      and r = int16_raster and pts = "[(7::nat, 3 / 2, 5 / 2)]" and rows = "[(7, 3 / 2, 5 / 2, 6)]"
      and file_raster = "''dem32.tif''" and r' = float_raster
      and point_file = "''points.geojson''" and rows' = "[(5 / 2, 3 / 2, Finite 1)]"]
  by (simp add: sampleRasterFromPointsList_def rasterValuesAtPoints_def small_world_defs
      run_simps binary32_one)

text \<open>
  C5. When the vector layer declares no spatial reference, \<open>rasterValuesAtPoints\<close> fails
  with the error the specification calls MissingCRSError, before any pixel is read, provided the
  raster opened (otherwise the run has already failed on the raster).
\<close>

theorem missing_crs_fails:
  assumes "ogr_Open w point_file = Some lyr" and "GetSpatialRef lyr = None"
  shows "reads (rasterValuesAtPoints w raster_file point_file) = [] \<and>
     outcome (rasterValuesAtPoints w raster_file point_file) =
       (case gdal_Open w raster_file of
          None \<Rightarrow> Inl RasterOpenError
        | Some r \<Rightarrow> Inl MissingCRSError)"
  using assms by (simp add: rasterValuesAtPoints_def split: option.splits)

theorem missing_crs_fails_witness:
  "ogr_Open small_world ''bare.shp'' = Some bare_layer \<and> GetSpatialRef bare_layer = None \<and>
   reads (rasterValuesAtPoints small_world ''dem32.tif'' ''bare.shp'') = [] \<and>
   outcome (rasterValuesAtPoints small_world ''dem32.tif'' ''bare.shp'') = Inl MissingCRSError"
  using missing_crs_fails [of small_world "''bare.shp''" bare_layer "''dem32.tif''"]
  by (simp add: small_world_defs)

text \<open>
  C6, as the code has it. A forward geotransform whose determinant is zero has no inverse:
  \<open>gdal.InvGeoTransform\<close> returns \<open>None\<close> and the loading step goes on. The run fails when it
  reaches \<open>gdal.ApplyGeoTransform\<close> for the first point, before any pixel is read; a run over
  no points returns the empty list.
\<close>

theorem degenerate_transform_fails_at_first_point:
  assumes "gdal_Open w raster_file = Some r"
    and "GetGeoTransform r = (g0, g1, g2, g3, g4, g5)"
    and "g1 * g5 - g2 * g4 = 0"
  shows "sampleRasterFromPointsList w raster_file [] = \<lparr>reads = [], outcome = Inr []\<rparr> \<and>
     sampleRasterFromPointsList w raster_file (p # ps) =
       \<lparr>reads = [], outcome = Inl TransformInversionError\<rparr> \<and>
     (ogr_Open w point_file = Some lyr \<and> GetSpatialRef lyr = Some pointSR \<longrightarrow>
        rasterValuesAtPoints w raster_file point_file =
          \<lparr>reads = [],
           outcome = (if features lyr = [] then Inr [] else Inl TransformInversionError)\<rparr>)"
proof -
  from assms(2,3) have inv: "InvGeoTransform (GetGeoTransform r) = None" by simp
  show ?thesis
  proof (intro conjI impI)
    show "sampleRasterFromPointsList w raster_file [] = \<lparr>reads = [], outcome = Inr []\<rparr>"
      using assms(1) by (simp add: sampleRasterFromPointsList_run)
    show "sampleRasterFromPointsList w raster_file (p # ps) =
        \<lparr>reads = [], outcome = Inl TransformInversionError\<rparr>"
      using assms(1) inv
      by (simp add: sampleRasterFromPointsList_run points_list_loop_no_inverse)
  next
    assume "ogr_Open w point_file = Some lyr \<and> GetSpatialRef lyr = Some pointSR"
    with assms(1) inv show "rasterValuesAtPoints w raster_file point_file =
        \<lparr>reads = [],
         outcome = (if features lyr = [] then Inr [] else Inl TransformInversionError)\<rparr>"
      by (cases "features lyr") (simp_all add: rasterValuesAtPoints_run layer_loop_no_inverse)
  qed
qed

theorem degenerate_transform_fails_at_first_point_witness:
  "gdal_Open small_world ''flat.tif'' = Some flat_raster \<and>
   GetGeoTransform flat_raster = (0, 0, 0, 0, 0, 0) \<and> (0::real) * 0 - 0 * 0 = 0 \<and>
   sampleRasterFromPointsList small_world ''flat.tif'' ([] :: (nat \<times> real \<times> real) list) =
     \<lparr>reads = [], outcome = Inr []\<rparr> \<and>
   sampleRasterFromPointsList small_world ''flat.tif'' [(7::nat, 3 / 2, 5 / 2)] =
     \<lparr>reads = [], outcome = Inl TransformInversionError\<rparr> \<and>
   ogr_Open small_world ''points.geojson'' = Some point_layer \<and>
   GetSpatialRef point_layer = Some 3857 \<and>
   rasterValuesAtPoints small_world ''flat.tif'' ''points.geojson'' =
     \<lparr>reads = [], outcome = Inl TransformInversionError\<rparr>"
  using degenerate_transform_fails_at_first_point [where w = small_world
      and raster_file = "''flat.tif''" and r = flat_raster
      and ?g0.0 = 0 and ?g1.0 = 0 and ?g2.0 = 0 and ?g3.0 = 0 and ?g4.0 = 0 and ?g5.0 = 0
      and point_file = "''points.geojson''" and lyr = point_layer and pointSR = 3857
      and p = "(7::nat, 3 / 2, 5 / 2)" and ps = "[]"]
  by (simp add: small_world_defs)

text \<open>
  C6, as the specification states it, fails: the raster \<open>flat.tif\<close> has a geotransform
  that cannot be inverted, it is loaded without a failure, and a run over no points returns the
  empty list from both functions.
\<close>

theorem degenerate_transform_counterexample:
  "GetGeoTransform flat_raster = (0, 0, 0, 0, 0, 0) \<and>
   InvGeoTransform (GetGeoTransform flat_raster) = None \<and>
   gdal_Open small_world ''flat.tif'' = Some flat_raster \<and>
   outcome (sampleRasterFromPointsList small_world ''flat.tif'' ([] :: (nat \<times> real \<times> real) list)) =
     Inr [] \<and>
   outcome (rasterValuesAtPoints small_world ''flat.tif'' ''none.geojson'') = Inr []"
  by (simp add: sampleRasterFromPointsList_def rasterValuesAtPoints_def small_world_defs)

text \<open>
  C1, as the code has it. With the forward geotransform (0, 1, 0, 0, 0, 1) and a
  transformation that returns the point as it is (the raster and the points share one spatial
  reference), the two coordinates are swapped before the pixel is looked up: the point (x, y)
  is read at the pixel (floor y, floor x).
\<close>

theorem unit_pixels_read_swapped:
  assumes "gdal_Open w raster_file = Some r"
    and "GetGeoTransform r = (0, 1, 0, 0, 0, 1)"
    and "\<forall>x y. \<exists>z. CoordinateTransformation w (GetProjection r) (GetProjection r) x y = (x, y, z)"
  shows "(ImportFromEPSG w 3857 = GetProjection r \<longrightarrow>
            reads (sampleRasterFromPointsList w raster_file [(f0, x, y)]) = [(\<lfloor>y\<rfloor>, \<lfloor>x\<rfloor>)] \<and>
            reads (sampleRasterFromPointsList w raster_file pts) =
              map (\<lambda>(f0, f1, f2). (\<lfloor>f2\<rfloor>, \<lfloor>f1\<rfloor>))
                (take (length (reads (sampleRasterFromPointsList w raster_file pts))) pts)) \<and>
         (ogr_Open w point_file = Some lyr \<and> GetSpatialRef lyr = Some (GetProjection r) \<longrightarrow>
            (features lyr = [(x, y)] \<longrightarrow>
               reads (rasterValuesAtPoints w raster_file point_file) = [(\<lfloor>y\<rfloor>, \<lfloor>x\<rfloor>)]) \<and>
            reads (rasterValuesAtPoints w raster_file point_file) =
              map (\<lambda>(gx, gy). (\<lfloor>gy\<rfloor>, \<lfloor>gx\<rfloor>))
                (take (length (reads (rasterValuesAtPoints w raster_file point_file)))
                   (features lyr)))"
proof -
  let ?sr = "GetProjection r"
  from assms(2) have inv: "InvGeoTransform (GetGeoTransform r) = Some (0, 1, 0, 0, 0, 1)"
    by simp
  have pix: "pixel_of (CoordinateTransformation w ?sr ?sr) (0, 1, 0, 0, 0, 1) a b =
      (\<lfloor>b\<rfloor>, \<lfloor>a\<rfloor>)" for a b
    using assms(3) by (rule pixel_of_unit_pixels_all)
  show ?thesis
  proof (intro conjI impI)
    assume sr: "ImportFromEPSG w 3857 = GetProjection r"
    from list_run_single_read [OF assms(1) inv, of f0 x y]
    show "reads (sampleRasterFromPointsList w raster_file [(f0, x, y)]) = [(\<lfloor>y\<rfloor>, \<lfloor>x\<rfloor>)]"
      by (simp add: sr pix)
    from list_run_reads [OF assms(1) inv, of pts]
    show "reads (sampleRasterFromPointsList w raster_file pts) =
        map (\<lambda>(f0, f1, f2). (\<lfloor>f2\<rfloor>, \<lfloor>f1\<rfloor>))
          (take (length (reads (sampleRasterFromPointsList w raster_file pts))) pts)"
      by (simp add: sr pix)
  next
    assume lyr: "ogr_Open w point_file = Some lyr \<and> GetSpatialRef lyr = Some (GetProjection r)"
    assume "features lyr = [(x, y)]"
    with layer_run_single_read [OF assms(1) inv, of point_file lyr ?sr x y] lyr
    show "reads (rasterValuesAtPoints w raster_file point_file) = [(\<lfloor>y\<rfloor>, \<lfloor>x\<rfloor>)]"
      by (simp add: pix)
  next
    assume lyr: "ogr_Open w point_file = Some lyr \<and> GetSpatialRef lyr = Some (GetProjection r)"
    with layer_run_reads [OF assms(1) inv, of point_file lyr ?sr]
    show "reads (rasterValuesAtPoints w raster_file point_file) =
        map (\<lambda>(gx, gy). (\<lfloor>gy\<rfloor>, \<lfloor>gx\<rfloor>))
          (take (length (reads (rasterValuesAtPoints w raster_file point_file))) (features lyr))"
      by (simp add: pix)
  qed
qed

theorem unit_pixels_read_swapped_witness:
  "gdal_Open small_world ''dem.tif'' = Some int16_raster \<and>
   GetGeoTransform int16_raster = (0, 1, 0, 0, 0, 1) \<and>
   (\<forall>x y. \<exists>z. CoordinateTransformation small_world (GetProjection int16_raster)
      (GetProjection int16_raster) x y = (x, y, z)) \<and>
   ImportFromEPSG small_world 3857 = GetProjection int16_raster \<and>
   reads (sampleRasterFromPointsList small_world ''dem.tif'' [(7::nat, 3 / 2, 5 / 2)]) =
     [(\<lfloor>5 / 2 :: real\<rfloor>, \<lfloor>3 / 2 :: real\<rfloor>)] \<and>
   ogr_Open small_world ''points.geojson'' = Some point_layer \<and>
   GetSpatialRef point_layer = Some (GetProjection int16_raster) \<and>
   features point_layer = [(3 / 2, 5 / 2)] \<and>
   reads (rasterValuesAtPoints small_world ''dem.tif'' ''points.geojson'') =
     [(\<lfloor>5 / 2 :: real\<rfloor>, \<lfloor>3 / 2 :: real\<rfloor>)]"
  using unit_pixels_read_swapped [where w = small_world and raster_file = "''dem.tif''"
      and r = int16_raster and ?f0.0 = "7::nat" and x = "3 / 2" and y = "5 / 2"
      and pts = "[(7::nat, 3 / 2, 5 / 2)]"
      and point_file = "''points.geojson''" and lyr = point_layer]
  by (simp add: small_world_defs)

text \<open>
  C1, as the specification states it, fails: in the small world the point (1.5, 2.5) is read
  at the pixel (2, 1), whose value is 6, and not at (1, 2), whose value is 9.
\<close>

theorem unit_pixels_counterexample:
  "gdal_Open small_world ''dem.tif'' = Some int16_raster \<and>
   GetGeoTransform int16_raster = (0, 1, 0, 0, 0, 1) \<and>
   GetProjection int16_raster = ImportFromEPSG small_world 3857 \<and>
   sampleRasterFromPointsList small_world ''dem.tif'' [(7::nat, 3 / 2, 5 / 2)] =
     \<lparr>reads = [(2, 1)], outcome = Inr [(7, 3 / 2, 5 / 2, 6)]\<rparr> \<and>
   reads (sampleRasterFromPointsList small_world ''dem.tif'' [(7::nat, 3 / 2, 5 / 2)]) \<noteq>
     [(\<lfloor>3 / 2 :: real\<rfloor>, \<lfloor>5 / 2 :: real\<rfloor>)]"
  by (simp add: sampleRasterFromPointsList_def small_world_defs run_simps)

text \<open>
  C2. In both functions the first coordinate that the transformation returns is used as mapY
  and the second as mapX, for every point: every window handed to \<open>band.ReadRaster\<close> is the
  floor of the inverse geotransform applied to (second, first), and the rows that
  \<open>rasterValuesAtPoints\<close> returns carry (second, first) as their mapX and mapY.
\<close>

theorem transformed_coordinates_swapped:
  assumes "gdal_Open w raster_file = Some r"
    and "InvGeoTransform (GetGeoTransform r) = Some (a0, a1, a2, a3, a4, a5)"
  shows "reads (sampleRasterFromPointsList w raster_file pts) =
       map (\<lambda>(f0, f1, f2).
              case CoordinateTransformation w (ImportFromEPSG w 3857) (GetProjection r) f1 f2 of
                (first, second, third) \<Rightarrow>
                  (\<lfloor>a0 + second * a1 + first * a2\<rfloor>, \<lfloor>a3 + second * a4 + first * a5\<rfloor>))
         (take (length (reads (sampleRasterFromPointsList w raster_file pts))) pts) \<and>
     (\<forall>rows. outcome (sampleRasterFromPointsList w raster_file pts) = Inr rows \<longrightarrow>
        length (reads (sampleRasterFromPointsList w raster_file pts)) = length pts) \<and>
     (ogr_Open w point_file = Some lyr \<and> GetSpatialRef lyr = Some pointSR \<longrightarrow>
        reads (rasterValuesAtPoints w raster_file point_file) =
          map (\<lambda>(gx, gy).
                 case CoordinateTransformation w pointSR (GetProjection r) gx gy of
                   (first, second, third) \<Rightarrow>
                     (\<lfloor>a0 + second * a1 + first * a2\<rfloor>, \<lfloor>a3 + second * a4 + first * a5\<rfloor>))
            (take (length (reads (rasterValuesAtPoints w raster_file point_file))) (features lyr)) \<and>
        (\<forall>rows. outcome (rasterValuesAtPoints w raster_file point_file) = Inr rows \<longrightarrow>
           length (reads (rasterValuesAtPoints w raster_file point_file)) = length (features lyr) \<and>
           map (\<lambda>(mapX, mapY, elevation). (mapX, mapY)) rows =
             map (\<lambda>(gx, gy).
                    case CoordinateTransformation w pointSR (GetProjection r) gx gy of
                      (first, second, third) \<Rightarrow> (second, first)) (features lyr)))"
proof (intro conjI impI allI)
  from list_run_reads [OF assms, of pts]
  show "reads (sampleRasterFromPointsList w raster_file pts) =
       map (\<lambda>(f0, f1, f2).
              case CoordinateTransformation w (ImportFromEPSG w 3857) (GetProjection r) f1 f2 of
                (first, second, third) \<Rightarrow>
                  (\<lfloor>a0 + second * a1 + first * a2\<rfloor>, \<lfloor>a3 + second * a4 + first * a5\<rfloor>))
         (take (length (reads (sampleRasterFromPointsList w raster_file pts))) pts)"
    by (simp add: pixel_of_swapped)
next
  fix rows assume "outcome (sampleRasterFromPointsList w raster_file pts) = Inr rows"
  from list_run_reads_all [OF assms this]
  show "length (reads (sampleRasterFromPointsList w raster_file pts)) = length pts"
    by simp
next
  assume "ogr_Open w point_file = Some lyr \<and> GetSpatialRef lyr = Some pointSR"
  then have lyr: "ogr_Open w point_file = Some lyr" "GetSpatialRef lyr = Some pointSR"
    by simp_all
  from layer_run_reads [OF assms lyr]
  show "reads (rasterValuesAtPoints w raster_file point_file) =
          map (\<lambda>(gx, gy).
                 case CoordinateTransformation w pointSR (GetProjection r) gx gy of
                   (first, second, third) \<Rightarrow>
                     (\<lfloor>a0 + second * a1 + first * a2\<rfloor>, \<lfloor>a3 + second * a4 + first * a5\<rfloor>))
            (take (length (reads (rasterValuesAtPoints w raster_file point_file))) (features lyr))"
    by (simp add: pixel_of_swapped)
next
  fix rows
  assume "ogr_Open w point_file = Some lyr \<and> GetSpatialRef lyr = Some pointSR"
  then have lyr: "ogr_Open w point_file = Some lyr" "GetSpatialRef lyr = Some pointSR"
    by simp_all
  assume ok: "outcome (rasterValuesAtPoints w raster_file point_file) = Inr rows"
  from layer_run_rows(1) [OF assms lyr ok]
  show "length (reads (rasterValuesAtPoints w raster_file point_file)) = length (features lyr)"
    by simp
  from layer_run_rows(2) [OF assms lyr ok]
  show "map (\<lambda>(mapX, mapY, elevation). (mapX, mapY)) rows =
      map (\<lambda>(gx, gy).
             case CoordinateTransformation w pointSR (GetProjection r) gx gy of
               (first, second, third) \<Rightarrow> (second, first)) (features lyr)"
    by simp
qed

theorem transformed_coordinates_swapped_witness:
  "gdal_Open small_world ''dem32.tif'' = Some float_raster \<and>
   InvGeoTransform (GetGeoTransform float_raster) = Some (0, 1, 0, 0, 0, 1) \<and>
   reads (sampleRasterFromPointsList small_world ''dem32.tif'' [(7::nat, 3 / 2, 5 / 2)]) =
     [(2, 1)] \<and>
   ogr_Open small_world ''points.geojson'' = Some point_layer \<and>
   GetSpatialRef point_layer = Some 3857 \<and>
   outcome (rasterValuesAtPoints small_world ''dem32.tif'' ''points.geojson'') =
     Inr [(5 / 2, 3 / 2, Finite 1)] \<and>
   reads (rasterValuesAtPoints small_world ''dem32.tif'' ''points.geojson'') = [(2, 1)] \<and>
   map (\<lambda>(mapX, mapY, elevation). (mapX, mapY)) [(5 / 2 :: real, 3 / 2 :: real, Finite 1)] =
     map (\<lambda>(gx, gy).
            case CoordinateTransformation small_world 3857 (GetProjection float_raster) gx gy of
              (first, second, third) \<Rightarrow> (second, first)) (features point_layer)"
  using transformed_coordinates_swapped [where w = small_world
      and raster_file = "''dem32.tif''" and r = float_raster
      and ?a0.0 = 0 and ?a1.0 = 1 and ?a2.0 = 0 and ?a3.0 = 0 and ?a4.0 = 0 and ?a5.0 = 1
      and pts = "[(7::nat, 3 / 2, 5 / 2)]"
      and point_file = "''points.geojson''" and lyr = point_layer and pointSR = 3857]
  by (simp add: sampleRasterFromPointsList_def rasterValuesAtPoints_def small_world_defs
      run_simps binary32_one)

text \<open>
  C4. The pixel index is the floor of the fractional pixel coordinate, towards minus
  infinity: every window handed to \<open>band.ReadRaster\<close> is
  \<open>(math_floor c0, math_floor c1)\<close> for the coordinates \<open>(c0, c1)\<close> that the inverse
  geotransform returns, where \<open>math_floor c \<le> c < math_floor c + 1\<close>; the coordinate -0.5
  gives the index -1. The index is handed on as it is, whether or not it lies in the raster.
\<close>

theorem pixel_index_is_floor:
  assumes "gdal_Open w raster_file = Some r"
    and "InvGeoTransform (GetGeoTransform r) = Some rv"
  shows "reads (sampleRasterFromPointsList w raster_file [(f0, f1, f2)]) =
       [case CoordinateTransformation w (ImportFromEPSG w 3857) (GetProjection r) f1 f2 of
          (p0, p1, p2) \<Rightarrow>
            (case ApplyGeoTransform rv p1 p0 of (c0, c1) \<Rightarrow> (math_floor c0, math_floor c1))] \<and>
     reads (sampleRasterFromPointsList w raster_file pts) =
       map (\<lambda>(f0, f1, f2).
              case CoordinateTransformation w (ImportFromEPSG w 3857) (GetProjection r) f1 f2 of
                (p0, p1, p2) \<Rightarrow>
                  (case ApplyGeoTransform rv p1 p0 of (c0, c1) \<Rightarrow> (math_floor c0, math_floor c1)))
         (take (length (reads (sampleRasterFromPointsList w raster_file pts))) pts) \<and>
     (ogr_Open w point_file = Some lyr \<and> GetSpatialRef lyr = Some pointSR \<longrightarrow>
        reads (rasterValuesAtPoints w raster_file point_file) =
          map (\<lambda>(gx, gy).
                 case CoordinateTransformation w pointSR (GetProjection r) gx gy of
                   (p0, p1, p2) \<Rightarrow>
                     (case ApplyGeoTransform rv p1 p0 of
                        (c0, c1) \<Rightarrow> (math_floor c0, math_floor c1)))
            (take (length (reads (rasterValuesAtPoints w raster_file point_file)))
               (features lyr))) \<and>
     real_of_int (math_floor c) \<le> c \<and> c < real_of_int (math_floor c) + 1 \<and>
     math_floor (- 0.5) = - 1"
proof (intro conjI impI)
  from list_run_single_read [OF assms, of f0 f1 f2]
  show "reads (sampleRasterFromPointsList w raster_file [(f0, f1, f2)]) =
       [case CoordinateTransformation w (ImportFromEPSG w 3857) (GetProjection r) f1 f2 of
          (p0, p1, p2) \<Rightarrow>
            (case ApplyGeoTransform rv p1 p0 of (c0, c1) \<Rightarrow> (math_floor c0, math_floor c1))]"
    by (simp add: pixel_of_floor)
next
  from list_run_reads [OF assms, of pts]
  show "reads (sampleRasterFromPointsList w raster_file pts) =
       map (\<lambda>(f0, f1, f2).
              case CoordinateTransformation w (ImportFromEPSG w 3857) (GetProjection r) f1 f2 of
                (p0, p1, p2) \<Rightarrow>
                  (case ApplyGeoTransform rv p1 p0 of (c0, c1) \<Rightarrow> (math_floor c0, math_floor c1)))
         (take (length (reads (sampleRasterFromPointsList w raster_file pts))) pts)"
    by (simp add: pixel_of_floor)
next
  assume "ogr_Open w point_file = Some lyr \<and> GetSpatialRef lyr = Some pointSR"
  then have lyr: "ogr_Open w point_file = Some lyr" "GetSpatialRef lyr = Some pointSR"
    by simp_all
  from layer_run_reads [OF assms lyr]
  show "reads (rasterValuesAtPoints w raster_file point_file) =
          map (\<lambda>(gx, gy).
                 case CoordinateTransformation w pointSR (GetProjection r) gx gy of
                   (p0, p1, p2) \<Rightarrow>
                     (case ApplyGeoTransform rv p1 p0 of
                        (c0, c1) \<Rightarrow> (math_floor c0, math_floor c1)))
            (take (length (reads (rasterValuesAtPoints w raster_file point_file)))
               (features lyr))"
    by (simp add: pixel_of_floor)
next
  show "real_of_int (math_floor c) \<le> c" using math_floor_bounds [of c] by simp
  show "c < real_of_int (math_floor c) + 1" using math_floor_bounds [of c] by simp
  show "math_floor (- 0.5) = - 1" by (simp add: math_floor_def)
qed

theorem pixel_index_is_floor_witness:
  "gdal_Open small_world ''dem.tif'' = Some int16_raster \<and>
   InvGeoTransform (GetGeoTransform int16_raster) = Some (0, 1, 0, 0, 0, 1) \<and>
   CoordinateTransformation small_world (ImportFromEPSG small_world 3857)
     (GetProjection int16_raster) 0.5 (- 0.5) = (0.5, - 0.5, 0) \<and>
   ApplyGeoTransform (0, 1, 0, 0, 0, 1) (- 0.5) 0.5 = (- 0.5, 0.5) \<and>
   sampleRasterFromPointsList small_world ''dem.tif'' [(7::nat, 0.5, - 0.5)] =
     \<lparr>reads = [(- 1, 0)], outcome = Inl PixelReadError\<rparr> \<and>
   ogr_Open small_world ''points.geojson'' = Some point_layer \<and>
   GetSpatialRef point_layer = Some 3857 \<and>
   reads (rasterValuesAtPoints small_world ''dem.tif'' ''points.geojson'') = [(2, 1)]"
  using pixel_index_is_floor [where w = small_world and raster_file = "''dem.tif''"
      and r = int16_raster and rv = "(0, 1, 0, 0, 0, 1)"
      and ?f0.0 = "7::nat" and ?f1.0 = "0.5" and ?f2.0 = "- 0.5"
      and pts = "[(7::nat, 0.5, - 0.5)]"
      and point_file = "''points.geojson''" and lyr = point_layer and pointSR = 3857]
  by (simp add: sampleRasterFromPointsList_def rasterValuesAtPoints_def small_world_defs
      run_simps)

text \<open>
  C7. A pixel index outside the raster makes \<open>band.ReadRaster\<close> fail, and the failure ends the
  run: whatever points come before or after, the run returns no rows; when the points before it
  sample well, the run ends with the PixelReadError right after the failed read, so that no
  later point is transformed or read.
\<close>

theorem out_of_range_pixel_aborts:
  "(gdal_Open w raster_file = Some r \<and> InvGeoTransform (GetGeoTransform r) = Some rv \<and>
    pixel_of (CoordinateTransformation w (ImportFromEPSG w 3857) (GetProjection r)) rv f1 f2 =
      (pixX, pixY) \<and>
    \<not> (0 \<le> pixX \<and> pixX < RasterXSize r \<and> 0 \<le> pixY \<and> pixY < RasterYSize r) \<longrightarrow>
      (\<exists>e. outcome (sampleRasterFromPointsList w raster_file (ps @ (f0, f1, f2) # qs)) = Inl e) \<and>
      (\<forall>rows. outcome (sampleRasterFromPointsList w raster_file ps) = Inr rows \<longrightarrow>
         sampleRasterFromPointsList w raster_file (ps @ (f0, f1, f2) # qs) =
           \<lparr>reads = reads (sampleRasterFromPointsList w raster_file ps) @ [(pixX, pixY)],
            outcome = Inl PixelReadError\<rparr>)) \<and>
   (gdal_Open w raster_file' = Some r' \<and> InvGeoTransform (GetGeoTransform r') = Some rv' \<and>
    ogr_Open w point_file = Some lyr \<and> GetSpatialRef lyr = Some pointSR \<and>
    features lyr = gs @ (gx, gy) # hs \<and>
    pixel_of (CoordinateTransformation w pointSR (GetProjection r')) rv' gx gy = (pixX', pixY') \<and>
    \<not> (0 \<le> pixX' \<and> pixX' < RasterXSize r' \<and> 0 \<le> pixY' \<and> pixY' < RasterYSize r') \<longrightarrow>
      (\<exists>e. outcome (rasterValuesAtPoints w raster_file' point_file) = Inl e) \<and>
      ((\<forall>(hx, hy) \<in> set gs. \<exists>el.
           pixel_value r' (struct_unpack_f (sys_byteorder w))
             (pixel_of (CoordinateTransformation w pointSR (GetProjection r')) rv' hx hy) =
           Inr el) \<longrightarrow>
         rasterValuesAtPoints w raster_file' point_file =
           \<lparr>reads = layer_pixels (CoordinateTransformation w pointSR (GetProjection r')) rv' gs @
              [(pixX', pixY')],
            outcome = Inl PixelReadError\<rparr>))"
proof (intro conjI impI allI)
  let ?tr = "CoordinateTransformation w (ImportFromEPSG w 3857) (GetProjection r)"
  assume h: "gdal_Open w raster_file = Some r \<and> InvGeoTransform (GetGeoTransform r) = Some rv \<and>
    pixel_of ?tr rv f1 f2 = (pixX, pixY) \<and>
    \<not> (0 \<le> pixX \<and> pixX < RasterXSize r \<and> 0 \<le> pixY \<and> pixY < RasterYSize r)"
  then have opened: "gdal_Open w raster_file = Some r"
    and inv: "InvGeoTransform (GetGeoTransform r) = Some rv"
    and pix: "pixel_of ?tr rv f1 f2 = (pixX, pixY)"
    by simp_all
  have run: "sampleRasterFromPointsList w raster_file (ps @ (f0, f1, f2) # qs) =
      points_list_loop ?tr (Some rv) r (ps @ (f0, f1, f2) # qs) [] []"
    using opened inv by (simp add: sampleRasterFromPointsList_run)
  have run_ps: "sampleRasterFromPointsList w raster_file ps =
      points_list_loop ?tr (Some rv) r ps [] []"
    using opened inv by (simp add: sampleRasterFromPointsList_run)
  have bad: "pixel_value r struct_unpack_le_h (pixel_of ?tr rv f1 f2) = Inl PixelReadError"
    using h by (simp add: pixel_value_outside)
  show "\<exists>e. outcome (sampleRasterFromPointsList w raster_file (ps @ (f0, f1, f2) # qs)) = Inl e"
  proof (cases "outcome (sampleRasterFromPointsList w raster_file (ps @ (f0, f1, f2) # qs))")
    case (Inl e)
    then show ?thesis by blast
  next
    case (Inr rows)
    then have "outcome (points_list_loop ?tr (Some rv) r (ps @ (f0, f1, f2) # qs) [] []) =
        Inr rows"
      by (simp add: run)
    from points_list_loop_rows_ok [OF this, of f0 f1 f2] bad show ?thesis by simp
  qed
  fix rows
  assume ok: "outcome (sampleRasterFromPointsList w raster_file ps) = Inr rows"
  then have loop_ok: "outcome (points_list_loop ?tr (Some rv) r ps [] []) = Inr rows"
    by (simp add: run_ps)
  have before: "\<forall>(g0, g1, g2) \<in> set ps.
      \<exists>el. pixel_value r struct_unpack_le_h (pixel_of ?tr rv g1 g2) = Inr el"
    using points_list_loop_rows_ok [OF loop_ok] by blast
  from list_run_reads_all [OF opened inv ok]
  have rd: "reads (sampleRasterFromPointsList w raster_file ps) = list_pixels ?tr rv ps" .
  from points_list_loop_stops [OF before bad, of f0 qs "[]" "[]"]
  show "sampleRasterFromPointsList w raster_file (ps @ (f0, f1, f2) # qs) =
      \<lparr>reads = reads (sampleRasterFromPointsList w raster_file ps) @ [(pixX, pixY)],
       outcome = Inl PixelReadError\<rparr>"
    by (simp add: run rd pix)
next
  let ?tr = "CoordinateTransformation w pointSR (GetProjection r')"
  let ?bo = "sys_byteorder w"
  assume h: "gdal_Open w raster_file' = Some r' \<and>
    InvGeoTransform (GetGeoTransform r') = Some rv' \<and>
    ogr_Open w point_file = Some lyr \<and> GetSpatialRef lyr = Some pointSR \<and>
    features lyr = gs @ (gx, gy) # hs \<and> pixel_of ?tr rv' gx gy = (pixX', pixY') \<and>
    \<not> (0 \<le> pixX' \<and> pixX' < RasterXSize r' \<and> 0 \<le> pixY' \<and> pixY' < RasterYSize r')"
  then have run: "rasterValuesAtPoints w raster_file' point_file =
      layer_loop ?bo ?tr (Some rv') r' (gs @ (gx, gy) # hs) [] []"
    by (simp add: rasterValuesAtPoints_run)
  have bad: "pixel_value r' (struct_unpack_f ?bo) (pixel_of ?tr rv' gx gy) = Inl PixelReadError"
    using h by (simp add: pixel_value_outside)
  show "\<exists>e. outcome (rasterValuesAtPoints w raster_file' point_file) = Inl e"
  proof (cases "outcome (rasterValuesAtPoints w raster_file' point_file)")
    case (Inl e)
    then show ?thesis by blast
  next
    case (Inr rows)
    then have "outcome (layer_loop ?bo ?tr (Some rv') r' (gs @ (gx, gy) # hs) [] []) = Inr rows"
      by (simp add: run)
    from layer_loop_rows_ok [OF this, of gx gy] bad show ?thesis by simp
  qed
  assume before: "\<forall>(hx, hy) \<in> set gs. \<exists>el.
      pixel_value r' (struct_unpack_f ?bo) (pixel_of ?tr rv' hx hy) = Inr el"
  from layer_loop_stops [OF before bad, of hs "[]" "[]"] h
  show "rasterValuesAtPoints w raster_file' point_file =
      \<lparr>reads = layer_pixels ?tr rv' gs @ [(pixX', pixY')], outcome = Inl PixelReadError\<rparr>"
    by (simp add: run)
qed

theorem out_of_range_pixel_aborts_witness:
  "gdal_Open small_world ''dem.tif'' = Some int16_raster \<and>
   InvGeoTransform (GetGeoTransform int16_raster) = Some (0, 1, 0, 0, 0, 1) \<and>
   pixel_of (CoordinateTransformation small_world (ImportFromEPSG small_world 3857)
       (GetProjection int16_raster)) (0, 1, 0, 0, 0, 1) (1 / 2) (9 / 2) = (4, 0) \<and>
   \<not> (0 \<le> (4::int) \<and> 4 < RasterXSize int16_raster \<and>
      0 \<le> (0::int) \<and> 0 < RasterYSize int16_raster) \<and>
   outcome (sampleRasterFromPointsList small_world ''dem.tif'' [(7::nat, 3 / 2, 5 / 2)]) =
     Inr [(7, 3 / 2, 5 / 2, 6)] \<and>
   sampleRasterFromPointsList small_world ''dem.tif''
       ([(7::nat, 3 / 2, 5 / 2)] @ (8, 1 / 2, 9 / 2) # [(9, 1 / 2, 1 / 2)]) =
     \<lparr>reads = reads (sampleRasterFromPointsList small_world ''dem.tif'' [(7::nat, 3 / 2, 5 / 2)]) @
        [(4, 0)],
      outcome = Inl PixelReadError\<rparr> \<and>
   gdal_Open small_world ''dem32.tif'' = Some float_raster \<and>
   InvGeoTransform (GetGeoTransform float_raster) = Some (0, 1, 0, 0, 0, 1) \<and>
   ogr_Open small_world ''track.geojson'' = Some track_layer \<and>
   GetSpatialRef track_layer = Some 3857 \<and>
   features track_layer = [(3 / 2, 5 / 2)] @ (1 / 2, 9 / 2) # [(1 / 2, 1 / 2)] \<and>
   pixel_value float_raster (struct_unpack_f (sys_byteorder small_world))
       (pixel_of (CoordinateTransformation small_world 3857 (GetProjection float_raster))
          (0, 1, 0, 0, 0, 1) (3 / 2) (5 / 2)) = Inr (Finite 1) \<and>
   rasterValuesAtPoints small_world ''dem32.tif'' ''track.geojson'' =
     \<lparr>reads = [(2, 1), (4, 0)], outcome = Inl PixelReadError\<rparr>"
  using out_of_range_pixel_aborts [where w = small_world and raster_file = "''dem.tif''"
      and r = int16_raster and rv = "(0, 1, 0, 0, 0, 1)"
      and ?f0.0 = "8::nat" and ?f1.0 = "1 / 2" and ?f2.0 = "9 / 2" and pixX = 4 and pixY = 0
      and ps = "[(7::nat, 3 / 2, 5 / 2)]" and qs = "[(9::nat, 1 / 2, 1 / 2)]"
      and raster_file' = "''dem32.tif''" and r' = float_raster and rv' = "(0, 1, 0, 0, 0, 1)"
      and point_file = "''track.geojson''" and lyr = track_layer and pointSR = 3857
      and gs = "[(3 / 2, 5 / 2)]" and gx = "1 / 2" and gy = "9 / 2" and hs = "[(1 / 2, 1 / 2)]"
      and pixX' = 4 and pixY' = 0]
  by (simp add: sampleRasterFromPointsList_def rasterValuesAtPoints_def small_world_defs
      run_simps binary32_one pixel_of_def pixel_value_def)

text \<open>
  C9. The rows that \<open>sampleRasterFromPointsList\<close> returns are the input triples, in order and
  unchanged, each with one elevation appended: as many rows as points, and dropping the fourth
  field gives back the input list. The function returns such a list whenever every point falls
  on a pixel of the raster and the pixels of band 1 are two bytes wide.
\<close>

theorem rows_carry_input_points:
  "(outcome (sampleRasterFromPointsList w raster_file pts) = Inr rows \<longrightarrow>
      length rows = length pts \<and>
      map (\<lambda>(f0, f1, f2, elevation). (f0, f1, f2)) rows = pts) \<and>
   (gdal_Open w raster_file = Some r \<and> InvGeoTransform (GetGeoTransform r) = Some rv \<and>
    (\<forall>(f0, f1, f2) \<in> set pts.
        case pixel_of (CoordinateTransformation w (ImportFromEPSG w 3857) (GetProjection r))
               rv f1 f2 of
          (pixX, pixY) \<Rightarrow>
            0 \<le> pixX \<and> pixX < RasterXSize r \<and> 0 \<le> pixY \<and> pixY < RasterYSize r \<and>
            length (band1 r pixX pixY) = 2) \<longrightarrow>
      (\<exists>rows'. outcome (sampleRasterFromPointsList w raster_file pts) = Inr rows'))"
proof (intro conjI impI)
  assume "outcome (sampleRasterFromPointsList w raster_file pts) = Inr rows"
  then have "length rows = length pts \<and>
      map (\<lambda>(f0, f1, f2, elevation). (f0, f1, f2)) rows = pts"
    by (rule list_run_rows)
  then show "length rows = length pts"
    and "map (\<lambda>(f0, f1, f2, elevation). (f0, f1, f2)) rows = pts"
    by simp_all
next
  let ?tr = "CoordinateTransformation w (ImportFromEPSG w 3857) (GetProjection r)"
  assume h: "gdal_Open w raster_file = Some r \<and>
    InvGeoTransform (GetGeoTransform r) = Some rv \<and>
    (\<forall>(f0, f1, f2) \<in> set pts.
        case pixel_of ?tr rv f1 f2 of
          (pixX, pixY) \<Rightarrow>
            0 \<le> pixX \<and> pixX < RasterXSize r \<and> 0 \<le> pixY \<and> pixY < RasterYSize r \<and>
            length (band1 r pixX pixY) = 2)"
  have "\<forall>(f0, f1, f2) \<in> set pts.
      \<exists>el. pixel_value r struct_unpack_le_h (pixel_of ?tr rv f1 f2) = Inr el"
  proof (clarify)
    fix f0 f1 f2 assume mem: "(f0, f1, f2) \<in> set pts"
    from h have "\<forall>(f0, f1, f2) \<in> set pts.
        case pixel_of ?tr rv f1 f2 of
          (pixX, pixY) \<Rightarrow>
            0 \<le> pixX \<and> pixX < RasterXSize r \<and> 0 \<le> pixY \<and> pixY < RasterYSize r \<and>
            length (band1 r pixX pixY) = 2"
      by simp
    from bspec [OF this mem] have "case pixel_of ?tr rv f1 f2 of
          (pixX, pixY) \<Rightarrow>
            0 \<le> pixX \<and> pixX < RasterXSize r \<and> 0 \<le> pixY \<and> pixY < RasterYSize r \<and>
            length (band1 r pixX pixY) = 2"
      by simp
    then show "\<exists>el. pixel_value r struct_unpack_le_h (pixel_of ?tr rv f1 f2) = Inr el"
      by (cases "pixel_of ?tr rv f1 f2")
        (simp add: pixel_value_def ReadRaster_def struct_unpack_le_h_returns)
  qed
  from points_list_loop_returns [OF this, of "[]" "[]"] h
  show "\<exists>rows'. outcome (sampleRasterFromPointsList w raster_file pts) = Inr rows'"
    by (simp add: sampleRasterFromPointsList_run)
qed

theorem rows_carry_input_points_witness:
  "outcome (sampleRasterFromPointsList small_world ''dem.tif''
       [(7::nat, 3 / 2, 5 / 2), (8, 1 / 2, 1 / 2)]) =
     Inr [(7, 3 / 2, 5 / 2, 6), (8, 1 / 2, 1 / 2, 0)] \<and>
   length [(7::nat, 3 / 2 :: real, 5 / 2 :: real, 6 :: int), (8, 1 / 2, 1 / 2, 0)] =
     length [(7::nat, 3 / 2 :: real, 5 / 2 :: real), (8, 1 / 2, 1 / 2)] \<and>
   map (\<lambda>(f0, f1, f2, elevation). (f0, f1, f2))
       [(7::nat, 3 / 2 :: real, 5 / 2 :: real, 6 :: int), (8, 1 / 2, 1 / 2, 0)] =
     [(7, 3 / 2, 5 / 2), (8, 1 / 2, 1 / 2)] \<and>
   gdal_Open small_world ''dem.tif'' = Some int16_raster \<and>
   InvGeoTransform (GetGeoTransform int16_raster) = Some (0, 1, 0, 0, 0, 1) \<and>
   pixel_of (CoordinateTransformation small_world (ImportFromEPSG small_world 3857)
       (GetProjection int16_raster)) (0, 1, 0, 0, 0, 1) (3 / 2) (5 / 2) = (2, 1) \<and>
   pixel_of (CoordinateTransformation small_world (ImportFromEPSG small_world 3857)
       (GetProjection int16_raster)) (0, 1, 0, 0, 0, 1) (1 / 2) (1 / 2) = (0, 0) \<and>
   RasterXSize int16_raster = 4 \<and> RasterYSize int16_raster = 4 \<and>
   length (band1 int16_raster 2 1) = 2 \<and> length (band1 int16_raster 0 0) = 2"
  using rows_carry_input_points [where w = small_world and raster_file = "''dem.tif''"
      and pts = "[(7::nat, 3 / 2, 5 / 2), (8, 1 / 2, 1 / 2)]"
      and rows = "[(7, 3 / 2, 5 / 2, 6), (8, 1 / 2, 1 / 2, 0)]"
      and r = int16_raster and rv = "(0, 1, 0, 0, 0, 1)"]
  by (simp add: sampleRasterFromPointsList_def small_world_defs run_simps pixel_of_def)

text \<open>
  C8. \<open>gridWithElevation2csv\<close> replaces whatever the destination held by the header line
  \<open>x,y,elevation\<close> followed by one line per row, in the order of the rows: read back as
  lines, the text has one line more than the grid has rows. The fields are those of numbers:
  their text holds no line break.
\<close>

theorem csv_header_then_rows:
  assumes "writable fs outfile"
    and "\<forall>row \<in> set grid. \<forall>v \<in> set row. CR \<notin> set (render v) \<and> LF \<notin> set (render v)"
  shows "\<exists>text.
     gridWithElevation2csv render grid outfile fs =
       Inr (fs\<lparr>files := (files fs)(outfile \<mapsto> text)\<rparr>) \<and>
     splitlines [] text = ''x,y,elevation'' # map (\<lambda>row. join '','' (map render row)) grid \<and>
     length (splitlines [] text) = length grid + 1"
proof -
  let ?ls = "''x,y,elevation'' # map (\<lambda>row. join '','' (map render row)) grid"
  let ?text = "concat (map (\<lambda>l. l @ [CR, LF]) ?ls)"
  have "\<forall>l \<in> set ?ls. CR \<notin> set l \<and> LF \<notin> set l"
  proof
    fix l assume "l \<in> set ?ls"
    then consider "l = ''x,y,elevation''"
      | row where "row \<in> set grid" "l = join '','' (map render row)"
      by auto
    then show "CR \<notin> set l \<and> LF \<notin> set l"
    proof cases
      case 1
      then show ?thesis by (simp add: CR_def LF_def)
    next
      case 2
      with assms(2) have "\<forall>f \<in> set (map render row). CR \<notin> set f \<and> LF \<notin> set f"
        by simp
      then show ?thesis unfolding 2(2) by (rule join_comma_no_breaks)
    qed
  qed
  then have lines: "splitlines [] ?text = ?ls" by (rule splitlines_rows)
  have "gridWithElevation2csv render grid outfile fs =
      Inr (fs\<lparr>files := (files fs)(outfile \<mapsto> ?text)\<rparr>)"
    using assms(1) by (rule gridWithElevation2csv_text)
  moreover have "length (splitlines [] ?text) = length grid + 1"
    by (simp only: lines) simp
  ultimately show ?thesis using lines by blast
qed

theorem csv_header_then_rows_witness:
  "writable small_disk ''out.csv'' \<and>
   CR \<notin> set ''2.5'' \<and> LF \<notin> set ''2.5'' \<and> CR \<notin> set ''1.5'' \<and> LF \<notin> set ''1.5'' \<and>
   CR \<notin> set ''6'' \<and> LF \<notin> set ''6'' \<and>
   files small_disk ''out.csv'' = Some ''stale'' \<and>
   gridWithElevation2csv (\<lambda>s. s) [[''2.5'', ''1.5'', ''6''], [''1.5'', ''2.5'', ''9'']]
       ''out.csv'' small_disk =
     Inr (small_disk\<lparr>files := (files small_disk)(''out.csv'' \<mapsto>
       ''x,y,elevation'' @ [CR, LF] @ ''2.5,1.5,6'' @ [CR, LF] @ ''1.5,2.5,9'' @ [CR, LF])\<rparr>) \<and>
   splitlines []
       (''x,y,elevation'' @ [CR, LF] @ ''2.5,1.5,6'' @ [CR, LF] @ ''1.5,2.5,9'' @ [CR, LF]) =
     [''x,y,elevation'', ''2.5,1.5,6'', ''1.5,2.5,9'']"
  using csv_header_then_rows [where fs = small_disk and outfile = "''out.csv''"
      and render = "\<lambda>s. s" and grid = "[[''2.5'', ''1.5'', ''6''], [''1.5'', ''2.5'', ''9'']]"]
  by (simp add: small_disk_def gridWithElevation2csv_def writerow_def CR_def LF_def)

text \<open>
  C10. For an empty grid the destination is still written, and holds the header line alone.
  The header does not depend on the rows: for every grid the text of the destination begins
  with the header line.
\<close>

theorem csv_header_unconditional:
  assumes "writable fs outfile"
  shows "gridWithElevation2csv render [] outfile fs =
       Inr (fs\<lparr>files := (files fs)(outfile \<mapsto> ''x,y,elevation'' @ [CR, LF])\<rparr>) \<and>
     splitlines [] (''x,y,elevation'' @ [CR, LF]) = [''x,y,elevation''] \<and>
     (\<exists>rest. gridWithElevation2csv render grid outfile fs =
        Inr (fs\<lparr>files := (files fs)(outfile \<mapsto> ''x,y,elevation'' @ [CR, LF] @ rest)\<rparr>))"
proof (intro conjI)
  show "gridWithElevation2csv render [] outfile fs =
      Inr (fs\<lparr>files := (files fs)(outfile \<mapsto> ''x,y,elevation'' @ [CR, LF])\<rparr>)"
    using assms by (simp add: gridWithElevation2csv_text)
  show "splitlines [] (''x,y,elevation'' @ [CR, LF]) = [''x,y,elevation'']"
    using splitlines_line [of "''x,y,elevation''" "[]" "[]"] by (simp add: CR_def LF_def)
  show "\<exists>rest. gridWithElevation2csv render grid outfile fs =
      Inr (fs\<lparr>files := (files fs)(outfile \<mapsto> ''x,y,elevation'' @ [CR, LF] @ rest)\<rparr>)"
    using assms
    by (intro exI [of _ "concat (map (\<lambda>row. join '','' (map render row) @ [CR, LF]) grid)"])
      (simp add: gridWithElevation2csv_text comp_def)
qed

theorem csv_header_unconditional_witness:
  "writable small_disk ''new.csv'' \<and> files small_disk ''new.csv'' = None \<and>
   gridWithElevation2csv (\<lambda>s. s) [] ''new.csv'' small_disk =
     Inr (small_disk\<lparr>files := (files small_disk)(''new.csv'' \<mapsto> ''x,y,elevation'' @ [CR, LF])\<rparr>) \<and>
   writable small_disk ''out.csv'' \<and> files small_disk ''out.csv'' = Some ''stale'' \<and>
   gridWithElevation2csv (\<lambda>s. s) [] ''out.csv'' small_disk =
     Inr (small_disk\<lparr>files := (files small_disk)(''out.csv'' \<mapsto> ''x,y,elevation'' @ [CR, LF])\<rparr>) \<and>
   splitlines [] (''x,y,elevation'' @ [CR, LF]) = [''x,y,elevation'']"
  using csv_header_unconditional [where fs = small_disk and outfile = "''new.csv''"
      and render = "\<lambda>s :: string. s" and grid = "[]"]
    csv_header_unconditional [where fs = small_disk and outfile = "''out.csv''"
      and render = "\<lambda>s :: string. s" and grid = "[]"]
  by (simp add: small_disk_def)

end
